theory Spec2Isabelle
  imports Main
begin

section \<open>Nullable columns and errors\<close>

text \<open>
  The querier reads every textual column into an \<^verbatim>\<open>sql.NullString\<close> and the
  aggregate \<^verbatim>\<open>MIN(depth)\<close> into an \<^verbatim>\<open>sql.NullInt64\<close>. A nullable value is an
  option: \<open>None\<close> is SQL NULL. The field \<^verbatim>\<open>.String\<close> of a NullString that is not
  \<^verbatim>\<open>.Valid\<close> is the empty string.
\<close>

type_synonym NullString = "string option"
type_synonym NullInt64 = "int option"

definition Valid :: "'a option \<Rightarrow> bool" where
  "Valid n = (case n of None \<Rightarrow> False | Some _ \<Rightarrow> True)"

definition String :: "NullString \<Rightarrow> string" where
  "String n = (case n of None \<Rightarrow> [] | Some v \<Rightarrow> v)"

text \<open>
  Errors. \<open>NotFound msg\<close> is the value of \<^verbatim>\<open>fmt.Errorf\<close> in the source, with the
  formatted message: the source builds an error of its own only where a query gave
  no row. \<open>DriverError msg\<close> is an error handed back by \<^verbatim>\<open>QueryContext\<close> or
  \<^verbatim>\<open>rows.Scan\<close>, which the source returns as it is.
\<close>

datatype error = NotFound string | DriverError string

text \<open>
  What \<^verbatim>\<open>QueryContext\<close> gives back: an error, or a cursor. A cursor is the list of
  the rows that \<^verbatim>\<open>rows.Next\<close> delivers, each with the outcome of \<^verbatim>\<open>rows.Scan\<close> on
  it: the driver's error, or the scanned nullable values.
\<close>

type_synonym 'r cursor = "(error + 'r) list"
type_synonym 'r query_result = "error + 'r cursor"

section \<open>The catalog store\<close>

text \<open>
  Modelled from the spec: the schema. The statements that create the tables are not
  in \<^verbatim>\<open>query.go\<close>; the tables and columns below are those the queries of
  \<^verbatim>\<open>query.go\<close> name, with the types of sections 3 and 6 of the specification:
  textual columns may be NULL, \<^verbatim>\<open>entry_id\<close>, \<^verbatim>\<open>depth\<close> and
  \<^verbatim>\<open>channel_entry_id\<close> are integers, \<^verbatim>\<open>replaces\<close> is a nullable integer. A field
  is named \<open>table_column\<close>. A table is the list of its rows in scan order.
\<close>

record package_row =
  package_name :: NullString
  package_default_channel :: NullString

record channel_row =
  channel_name :: NullString
  channel_package_name :: NullString
  channel_head_operatorbundle_name :: NullString

record operatorbundle_row =
  operatorbundle_name :: NullString
  operatorbundle_bundle :: NullString

record channel_entry_row =
  channel_entry_entry_id :: int
  channel_entry_channel_name :: NullString
  channel_entry_package_name :: NullString
  channel_entry_operatorbundle_name :: NullString
  channel_entry_replaces :: NullInt64
  channel_entry_depth :: int

record api_provider_row =
  api_provider_groupOrName :: NullString
  api_provider_version :: NullString
  api_provider_kind :: NullString
  api_provider_channel_entry_id :: int

record store =
  package :: "package_row list"
  channel :: "channel_row list"
  operatorbundle :: "operatorbundle_row list"
  channel_entry :: "channel_entry_row list"
  api_provider :: "api_provider_row list"

section \<open>The SQL operators the queries use\<close>

text \<open>
  SQL leaves the order of the rows of a query without ORDER BY to the engine. The
  evaluator below fixes one: a table is scanned in the order of its list, a join is a
  nested loop with the left table outside, DISTINCT keeps the first occurrence of a row,
  GROUP BY yields the groups in the order in which their keys first occur, and LIMIT 1
  keeps the first row.
\<close>

text \<open>\<open>sql_eq a b\<close>: the comparison \<^verbatim>\<open>a = b\<close> is TRUE. With a NULL operand the
  comparison is NULL, which ON and WHERE treat as not TRUE.\<close>

definition sql_eq :: "'a option \<Rightarrow> 'a option \<Rightarrow> bool" where
  "sql_eq a b = (case a of None \<Rightarrow> False | Some x \<Rightarrow> (case b of None \<Rightarrow> False | Some y \<Rightarrow> x = y))"

definition inner_join :: "'a list \<Rightarrow> 'b list \<Rightarrow> ('a \<Rightarrow> 'b \<Rightarrow> bool) \<Rightarrow> ('a \<times> 'b) list" where
  "inner_join as bs on = concat (map (\<lambda>a. map (Pair a) (filter (on a) bs)) as)"

text \<open>LEFT OUTER JOIN: a left row with no partner is kept once, its right side
  absent (\<open>None\<close>), so that every column of the right side reads NULL.\<close>

definition left_outer_join :: "'a list \<Rightarrow> 'b list \<Rightarrow> ('a \<Rightarrow> 'b \<Rightarrow> bool) \<Rightarrow> ('a \<times> 'b option) list" where
  "left_outer_join as bs on =
     concat (map (\<lambda>a. case filter (on a) bs of
                          [] \<Rightarrow> [(a, None)]
                        | m # ms \<Rightarrow> map (\<lambda>b. (a, Some b)) (m # ms)) as)"

text \<open>A column of the right side of a left outer join.\<close>

definition column :: "('b \<Rightarrow> 'c option) \<Rightarrow> 'b option \<Rightarrow> 'c option" where
  "column c r = (case r of None \<Rightarrow> None | Some b \<Rightarrow> c b)"

fun sql_distinct :: "'a list \<Rightarrow> 'a list" where
  "sql_distinct [] = []"
| "sql_distinct (x # xs) = x # sql_distinct (filter (\<lambda>y. y \<noteq> x) xs)"

text \<open>
  GROUP BY with the single aggregate \<^verbatim>\<open>MIN(depth)\<close>: one row for each group, the
  other columns taken from a row of the group that holds the minimum. \<open>min_row\<close>
  runs over a group as the aggregate does, replacing the row it holds when a strictly
  smaller depth comes; \<open>sql_group_by_min\<close> takes the first row not yet grouped,
  gathers the rows with its key and goes on with the others.
\<close>

fun min_row :: "('r \<Rightarrow> int) \<Rightarrow> 'r \<Rightarrow> 'r list \<Rightarrow> 'r" where
  "min_row d best [] = best"
| "min_row d best (r # rs) = (if d r < d best then min_row d r rs else min_row d best rs)"

fun sql_group_by_min :: "('r \<Rightarrow> 'k) \<Rightarrow> ('r \<Rightarrow> int) \<Rightarrow> 'r list \<Rightarrow> 'r list" where
  "sql_group_by_min key d [] = []"
| "sql_group_by_min key d (r # rs) =
     min_row d r (filter (\<lambda>x. key x = key r) rs)
       # sql_group_by_min key d (filter (\<lambda>x. key x \<noteq> key r) rs)"

definition limit_1 :: "'a list \<Rightarrow> 'a list" where
  "limit_1 rows = take 1 rows"

text \<open>A successful \<^verbatim>\<open>QueryContext\<close> over a store: every row scans.\<close>

definition QueryContext :: "'r list \<Rightarrow> 'r query_result" where
  "QueryContext rows = Inr (map Inr rows)"

section \<open>The results of the registry package\<close>

text \<open>
  Modelled from the spec: the result types. \<^verbatim>\<open>registry.PackageManifest\<close>,
  \<^verbatim>\<open>registry.PackageChannel\<close> and \<^verbatim>\<open>registry.ChannelEntry\<close> are declared in
  a package that is not among the source files; the fields are those the source
  assigns, all strings (section 4.1: manifest, and package/channel/bundle/replaces
  tuples).
\<close>

record PackageChannel =
  Name :: string
  CurrentCSVName :: string

record PackageManifest =
  PackageName :: string
  DefaultChannelName :: string
  Channels :: "PackageChannel list"

record ChannelEntry =
  PackageName :: string
  ChannelName :: string
  BundleName :: string
  Replaces :: string

text \<open>The three operations that return entries have the Go result
  \<^verbatim>\<open>(entries []*registry.ChannelEntry, err error)\<close>: a pair, of which the caller is
  given both parts. A nil slice and an empty slice are both \<open>[]\<close>.\<close>

type_synonym entries_result = "ChannelEntry list \<times> error option"

section \<open>The operations of \<^verbatim>\<open>SQLQuerier\<close>\<close>

text \<open>Each operation is its SQL statement (\<open>_query\<close>, over the store) followed by
  the Go code that reads the cursor (\<open>_body\<close>).\<close>

subsection \<open>ListPackages\<close>

text \<open>\<^verbatim>\<open>SELECT DISTINCT name FROM package\<close>\<close>

definition ListPackages_query :: "store \<Rightarrow> NullString list" where
  "ListPackages_query s = sql_distinct (map package_name (package s))"

fun ListPackages_loop :: "NullString cursor \<Rightarrow> string list \<Rightarrow> error + string list" where
  "ListPackages_loop [] packages = Inr packages"
| "ListPackages_loop (Inl err # rows) packages = Inl err"
| "ListPackages_loop (Inr pkgName # rows) packages =
     (if Valid pkgName then ListPackages_loop rows (packages @ [String pkgName])
      else ListPackages_loop rows packages)"

definition ListPackages_body :: "NullString query_result \<Rightarrow> error + string list" where
  "ListPackages_body q = (case q of Inl err \<Rightarrow> Inl err | Inr rows \<Rightarrow> ListPackages_loop rows [])"

definition ListPackages :: "store \<Rightarrow> error + string list" where
  "ListPackages s = ListPackages_body (QueryContext (ListPackages_query s))"

subsection \<open>GetPackage\<close>

text \<open>\<^verbatim>\<open>SELECT DISTINCT package.name, default_channel, channel.name,
  channel.head_operatorbundle_name FROM package INNER JOIN channel ON
  channel.package_name=package.name WHERE package.name=?\<close>\<close>

type_synonym package_channel_columns = "NullString \<times> NullString \<times> NullString \<times> NullString"

definition GetPackage_query :: "store \<Rightarrow> string \<Rightarrow> package_channel_columns list" where
  "GetPackage_query s name =
     sql_distinct
       (map (\<lambda>(p, c). (package_name p, package_default_channel p, channel_name c,
                        channel_head_operatorbundle_name c))
         (filter (\<lambda>(p, c). sql_eq (package_name p) (Some name))
           (inner_join (package s) (channel s)
              (\<lambda>p c. sql_eq (channel_package_name c) (package_name p)))))"

definition GetPackage_body :: "string \<Rightarrow> package_channel_columns query_result \<Rightarrow> error + PackageManifest" where
  "GetPackage_body name q =
     (case q of
        Inl err \<Rightarrow> Inl err
      | Inr [] \<Rightarrow> Inl (NotFound (''package '' @ name @ '' not found''))
      | Inr (Inl err # rest) \<Rightarrow> Inl err
      | Inr (Inr (pkgName, defaultChannel, channelName, bundleName) # rest) \<Rightarrow>
          (let pkg = \<lparr>PackageManifest.PackageName = String pkgName,
                      DefaultChannelName = String defaultChannel,
                      Channels = [\<lparr>Name = String channelName, CurrentCSVName = String bundleName\<rparr>]\<rparr>
           in case rest of
                [] \<Rightarrow> Inr pkg
              | Inl err # _ \<Rightarrow> Inl err
              | Inr (pkgName', defaultChannel', channelName', bundleName') # _ \<Rightarrow>
                  Inr (pkg\<lparr>Channels := Channels pkg @
                         [\<lparr>Name = String channelName', CurrentCSVName = String bundleName'\<rparr>]\<rparr>)))"

definition GetPackage :: "store \<Rightarrow> string \<Rightarrow> error + PackageManifest" where
  "GetPackage s name = GetPackage_body name (QueryContext (GetPackage_query s name))"

subsection \<open>GetBundleForChannel\<close>

text \<open>\<^verbatim>\<open>SELECT DISTINCT operatorbundle.bundle FROM channel INNER JOIN operatorbundle ON
  channel.head_operatorbundle_name=operatorbundle.name WHERE channel.package_name=? AND
  channel.name=? LIMIT 1\<close>\<close>

definition GetBundleForChannel_query :: "store \<Rightarrow> string \<Rightarrow> string \<Rightarrow> NullString list" where
  "GetBundleForChannel_query s pkgName channelName =
     limit_1 (sql_distinct
       (map (\<lambda>(c, ob). operatorbundle_bundle ob)
         (filter (\<lambda>(c, ob). sql_eq (channel_package_name c) (Some pkgName) \<and>
                             sql_eq (channel_name c) (Some channelName))
           (inner_join (channel s) (operatorbundle s)
              (\<lambda>c ob. sql_eq (channel_head_operatorbundle_name c) (operatorbundle_name ob))))))"

definition GetBundleForChannel_body :: "string \<Rightarrow> string \<Rightarrow> NullString query_result \<Rightarrow> error + string" where
  "GetBundleForChannel_body pkgName channelName q =
     (case q of
        Inl err \<Rightarrow> Inl err
      | Inr [] \<Rightarrow> Inl (NotFound (''no bundle found for '' @ pkgName @ '' '' @ channelName))
      | Inr (Inl err # _) \<Rightarrow> Inl err
      | Inr (Inr bundle # _) \<Rightarrow> Inr (String bundle))"

definition GetBundleForChannel :: "store \<Rightarrow> string \<Rightarrow> string \<Rightarrow> error + string" where
  "GetBundleForChannel s pkgName channelName =
     GetBundleForChannel_body pkgName channelName
       (QueryContext (GetBundleForChannel_query s pkgName channelName))"

subsection \<open>GetBundleForName\<close>

text \<open>\<^verbatim>\<open>SELECT DISTINCT operatorbundle.bundle FROM operatorbundle WHERE
  operatorbundle.name=? LIMIT 1\<close>\<close>

definition GetBundleForName_query :: "store \<Rightarrow> string \<Rightarrow> NullString list" where
  "GetBundleForName_query s name =
     limit_1 (sql_distinct
       (map operatorbundle_bundle
         (filter (\<lambda>ob. sql_eq (operatorbundle_name ob) (Some name)) (operatorbundle s))))"

definition GetBundleForName_body :: "string \<Rightarrow> NullString query_result \<Rightarrow> error + string" where
  "GetBundleForName_body name q =
     (case q of
        Inl err \<Rightarrow> Inl err
      | Inr [] \<Rightarrow> Inl (NotFound (''no bundle found named '' @ name))
      | Inr (Inl err # _) \<Rightarrow> Inl err
      | Inr (Inr bundle # _) \<Rightarrow> Inr (String bundle))"

definition GetBundleForName :: "store \<Rightarrow> string \<Rightarrow> error + string" where
  "GetBundleForName s name = GetBundleForName_body name (QueryContext (GetBundleForName_query s name))"

subsection \<open>GetChannelEntriesThatReplace\<close>

text \<open>\<^verbatim>\<open>SELECT DISTINCT channel_entry.package_name, channel_entry.channel_name,
  channel_entry.operatorbundle_name FROM channel_entry LEFT OUTER JOIN channel_entry
  replaces ON channel_entry.replaces = replaces.entry_id WHERE
  replaces.operatorbundle_name = ?\<close>\<close>

type_synonym entry_columns = "NullString \<times> NullString \<times> NullString"

definition GetChannelEntriesThatReplace_query :: "store \<Rightarrow> string \<Rightarrow> entry_columns list" where
  "GetChannelEntriesThatReplace_query s name =
     sql_distinct
       (map (\<lambda>(ce, replaces). (channel_entry_package_name ce, channel_entry_channel_name ce,
                               channel_entry_operatorbundle_name ce))
         (filter (\<lambda>(ce, replaces). sql_eq (column channel_entry_operatorbundle_name replaces) (Some name))
           (left_outer_join (channel_entry s) (channel_entry s)
              (\<lambda>ce replaces. sql_eq (channel_entry_replaces ce) (Some (channel_entry_entry_id replaces))))))"

text \<open>The results are named: a \<^verbatim>\<open>return\<close> after a failed scan gives back the
  entries appended so far together with the error.\<close>

fun GetChannelEntriesThatReplace_loop :: "string \<Rightarrow> entry_columns cursor \<Rightarrow> ChannelEntry list \<Rightarrow> entries_result" where
  "GetChannelEntriesThatReplace_loop name [] entries =
     (if length entries = 0
      then (entries, Some (NotFound (''no channel entries found that replace '' @ name)))
      else (entries, None))"
| "GetChannelEntriesThatReplace_loop name (Inl err # rows) entries = (entries, Some err)"
| "GetChannelEntriesThatReplace_loop name (Inr (pkgNameSQL, channelNameSQL, bundleNameSQL) # rows) entries =
     GetChannelEntriesThatReplace_loop name rows
       (entries @ [\<lparr>PackageName = String pkgNameSQL, ChannelName = String channelNameSQL,
                    BundleName = String bundleNameSQL, Replaces = name\<rparr>])"

definition GetChannelEntriesThatReplace_body :: "string \<Rightarrow> entry_columns query_result \<Rightarrow> entries_result" where
  "GetChannelEntriesThatReplace_body name q =
     (case q of Inl err \<Rightarrow> ([], Some err) | Inr rows \<Rightarrow> GetChannelEntriesThatReplace_loop name rows [])"

definition GetChannelEntriesThatReplace :: "store \<Rightarrow> string \<Rightarrow> entries_result" where
  "GetChannelEntriesThatReplace s name =
     GetChannelEntriesThatReplace_body name (QueryContext (GetChannelEntriesThatReplace_query s name))"

subsection \<open>GetBundleThatReplaces\<close>

text \<open>\<^verbatim>\<open>SELECT DISTINCT operatorbundle.bundle FROM channel_entry LEFT OUTER JOIN
  channel_entry replaces ON replaces.replaces = channel_entry.entry_id INNER JOIN
  operatorbundle ON replaces.operatorbundle_name = operatorbundle.name WHERE
  channel_entry.operatorbundle_name = ? AND channel_entry.package_name = ? AND
  channel_entry.channel_name = ? LIMIT 1\<close>\<close>

definition GetBundleThatReplaces_query :: "store \<Rightarrow> string \<Rightarrow> string \<Rightarrow> string \<Rightarrow> NullString list" where
  "GetBundleThatReplaces_query s name pkgName channelName =
     limit_1 (sql_distinct
       (map (\<lambda>((ce, replaces), ob). operatorbundle_bundle ob)
         (filter (\<lambda>((ce, replaces), ob).
                    sql_eq (channel_entry_operatorbundle_name ce) (Some name) \<and>
                    sql_eq (channel_entry_package_name ce) (Some pkgName) \<and>
                    sql_eq (channel_entry_channel_name ce) (Some channelName))
           (inner_join
              (left_outer_join (channel_entry s) (channel_entry s)
                 (\<lambda>ce replaces. sql_eq (channel_entry_replaces replaces) (Some (channel_entry_entry_id ce))))
              (operatorbundle s)
              (\<lambda>(ce, replaces) ob.
                 sql_eq (column channel_entry_operatorbundle_name replaces) (operatorbundle_name ob))))))"

definition GetBundleThatReplaces_body :: "string \<Rightarrow> NullString query_result \<Rightarrow> error + string" where
  "GetBundleThatReplaces_body name q =
     (case q of
        Inl err \<Rightarrow> Inl err
      | Inr [] \<Rightarrow> Inl (NotFound (''no bundle found that replaces '' @ name))
      | Inr (Inl err # _) \<Rightarrow> Inl err
      | Inr (Inr bundle # _) \<Rightarrow> Inr (String bundle))"

definition GetBundleThatReplaces :: "store \<Rightarrow> string \<Rightarrow> string \<Rightarrow> string \<Rightarrow> error + string" where
  "GetBundleThatReplaces s name pkgName channelName =
     GetBundleThatReplaces_body name
       (QueryContext (GetBundleThatReplaces_query s name pkgName channelName))"

subsection \<open>GetChannelEntriesThatProvide\<close>

text \<open>\<^verbatim>\<open>SELECT DISTINCT channel_entry.package_name, channel_entry.channel_name,
  channel_entry.operatorbundle_name, replaces.operatorbundle_name FROM channel_entry
  INNER JOIN api_provider ON channel_entry.entry_id = api_provider.channel_entry_id
  LEFT OUTER JOIN channel_entry replaces ON channel_entry.replaces = replaces.entry_id
  WHERE api_provider.groupOrName = ? AND api_provider.version = ? AND
  api_provider.kind = ?\<close>\<close>

type_synonym provider_columns = "NullString \<times> NullString \<times> NullString \<times> NullString"

text \<open>The FROM and WHERE clauses, which this query and the next one share.\<close>

definition providers_join ::
  "store \<Rightarrow> string \<Rightarrow> string \<Rightarrow> string \<Rightarrow>
   ((channel_entry_row \<times> api_provider_row) \<times> channel_entry_row option) list" where
  "providers_join s groupOrName version kind =
     filter (\<lambda>((ce, ap), replaces).
               sql_eq (api_provider_groupOrName ap) (Some groupOrName) \<and>
               sql_eq (api_provider_version ap) (Some version) \<and>
               sql_eq (api_provider_kind ap) (Some kind))
       (left_outer_join
          (inner_join (channel_entry s) (api_provider s)
             (\<lambda>ce ap. channel_entry_entry_id ce = api_provider_channel_entry_id ap))
          (channel_entry s)
          (\<lambda>(ce, ap) replaces. sql_eq (channel_entry_replaces ce) (Some (channel_entry_entry_id replaces))))"

definition GetChannelEntriesThatProvide_query ::
  "store \<Rightarrow> string \<Rightarrow> string \<Rightarrow> string \<Rightarrow> provider_columns list" where
  "GetChannelEntriesThatProvide_query s groupOrName version kind =
     sql_distinct
       (map (\<lambda>((ce, ap), replaces).
               (channel_entry_package_name ce, channel_entry_channel_name ce,
                channel_entry_operatorbundle_name ce,
                column channel_entry_operatorbundle_name replaces))
         (providers_join s groupOrName version kind))"

fun GetChannelEntriesThatProvide_loop ::
  "string \<Rightarrow> string \<Rightarrow> string \<Rightarrow> provider_columns cursor \<Rightarrow> ChannelEntry list \<Rightarrow> entries_result" where
  "GetChannelEntriesThatProvide_loop groupOrName version kind [] entries =
     (if length entries = 0
      then (entries, Some (NotFound (''no channel entries found that provide '' @ groupOrName @
                                      '' '' @ version @ '' '' @ kind)))
      else (entries, None))"
| "GetChannelEntriesThatProvide_loop groupOrName version kind (Inl err # rows) entries = (entries, Some err)"
| "GetChannelEntriesThatProvide_loop groupOrName version kind
       (Inr (pkgNameSQL, channelNameSQL, bundleNameSQL, replacesSQL) # rows) entries =
     GetChannelEntriesThatProvide_loop groupOrName version kind rows
       (entries @ [\<lparr>PackageName = String pkgNameSQL, ChannelName = String channelNameSQL,
                    BundleName = String bundleNameSQL, Replaces = String replacesSQL\<rparr>])"

definition GetChannelEntriesThatProvide_body ::
  "string \<Rightarrow> string \<Rightarrow> string \<Rightarrow> provider_columns query_result \<Rightarrow> entries_result" where
  "GetChannelEntriesThatProvide_body groupOrName version kind q =
     (case q of
        Inl err \<Rightarrow> ([], Some err)
      | Inr rows \<Rightarrow> GetChannelEntriesThatProvide_loop groupOrName version kind rows [])"

definition GetChannelEntriesThatProvide :: "store \<Rightarrow> string \<Rightarrow> string \<Rightarrow> string \<Rightarrow> entries_result" where
  "GetChannelEntriesThatProvide s groupOrName version kind =
     GetChannelEntriesThatProvide_body groupOrName version kind
       (QueryContext (GetChannelEntriesThatProvide_query s groupOrName version kind))"

subsection \<open>GetLatestChannelEntriesThatProvide\<close>

text \<open>\<^verbatim>\<open>SELECT DISTINCT channel_entry.package_name, channel_entry.channel_name,
  channel_entry.operatorbundle_name, replaces.operatorbundle_name,
  MIN(channel_entry.depth) FROM channel_entry INNER JOIN api_provider ON
  channel_entry.entry_id = api_provider.channel_entry_id LEFT OUTER JOIN channel_entry
  replaces ON channel_entry.replaces = replaces.entry_id WHERE api_provider.groupOrName
  = ? AND api_provider.version = ? AND api_provider.kind = ? GROUP BY
  channel_entry.package_name, channel_entry.channel_name\<close>\<close>

type_synonym latest_columns = "NullString \<times> NullString \<times> NullString \<times> NullString \<times> NullInt64"

definition GetLatestChannelEntriesThatProvide_query ::
  "store \<Rightarrow> string \<Rightarrow> string \<Rightarrow> string \<Rightarrow> latest_columns list" where
  "GetLatestChannelEntriesThatProvide_query s groupOrName version kind =
     sql_distinct
       (map (\<lambda>((ce, ap), replaces).
               (channel_entry_package_name ce, channel_entry_channel_name ce,
                channel_entry_operatorbundle_name ce,
                column channel_entry_operatorbundle_name replaces,
                Some (channel_entry_depth ce)))
         (sql_group_by_min
            (\<lambda>((ce, ap), replaces). (channel_entry_package_name ce, channel_entry_channel_name ce))
            (\<lambda>((ce, ap), replaces). channel_entry_depth ce)
            (providers_join s groupOrName version kind)))"

text \<open>Here every failure returns \<^verbatim>\<open>nil, err\<close>.\<close>

fun GetLatestChannelEntriesThatProvide_loop ::
  "string \<Rightarrow> string \<Rightarrow> string \<Rightarrow> latest_columns cursor \<Rightarrow> ChannelEntry list \<Rightarrow> entries_result" where
  "GetLatestChannelEntriesThatProvide_loop groupOrName version kind [] entries =
     (if length entries = 0
      then ([], Some (NotFound (''no channel entries found that provide '' @ groupOrName @
                                 '' '' @ version @ '' '' @ kind)))
      else (entries, None))"
| "GetLatestChannelEntriesThatProvide_loop groupOrName version kind (Inl err # rows) entries = ([], Some err)"
| "GetLatestChannelEntriesThatProvide_loop groupOrName version kind
       (Inr (pkgNameSQL, channelNameSQL, bundleNameSQL, replacesSQL, min_depth) # rows) entries =
     GetLatestChannelEntriesThatProvide_loop groupOrName version kind rows
       (entries @ [\<lparr>PackageName = String pkgNameSQL, ChannelName = String channelNameSQL,
                    BundleName = String bundleNameSQL, Replaces = String replacesSQL\<rparr>])"

definition GetLatestChannelEntriesThatProvide_body ::
  "string \<Rightarrow> string \<Rightarrow> string \<Rightarrow> latest_columns query_result \<Rightarrow> entries_result" where
  "GetLatestChannelEntriesThatProvide_body groupOrName version kind q =
     (case q of
        Inl err \<Rightarrow> ([], Some err)
      | Inr rows \<Rightarrow> GetLatestChannelEntriesThatProvide_loop groupOrName version kind rows [])"

definition GetLatestChannelEntriesThatProvide :: "store \<Rightarrow> string \<Rightarrow> string \<Rightarrow> string \<Rightarrow> entries_result" where
  "GetLatestChannelEntriesThatProvide s groupOrName version kind =
     GetLatestChannelEntriesThatProvide_body groupOrName version kind
       (QueryContext (GetLatestChannelEntriesThatProvide_query s groupOrName version kind))"

subsection \<open>GetBundleThatProvides\<close>

text \<open>\<^verbatim>\<open>SELECT DISTINCT operatorbundle.bundle, MIN(channel_entry.depth) FROM
  channel_entry INNER JOIN api_provider ON channel_entry.entry_id =
  api_provider.channel_entry_id INNER JOIN operatorbundle ON operatorbundle.name =
  channel_entry.operatorbundle_name INNER JOIN package ON package.name =
  channel_entry.package_name WHERE api_provider.groupOrName = ? AND api_provider.version
  = ? AND api_provider.kind = ? AND package.default_channel = channel_entry.channel_name
  GROUP BY channel_entry.package_name, channel_entry.channel_name\<close>\<close>

definition default_providers_join ::
  "store \<Rightarrow> string \<Rightarrow> string \<Rightarrow> string \<Rightarrow>
   (((channel_entry_row \<times> api_provider_row) \<times> operatorbundle_row) \<times> package_row) list" where
  "default_providers_join s groupOrName version kind =
     filter (\<lambda>(((ce, ap), ob), p).
               sql_eq (api_provider_groupOrName ap) (Some groupOrName) \<and>
               sql_eq (api_provider_version ap) (Some version) \<and>
               sql_eq (api_provider_kind ap) (Some kind) \<and>
               sql_eq (package_default_channel p) (channel_entry_channel_name ce))
       (inner_join
          (inner_join
             (inner_join (channel_entry s) (api_provider s)
                (\<lambda>ce ap. channel_entry_entry_id ce = api_provider_channel_entry_id ap))
             (operatorbundle s)
             (\<lambda>(ce, ap) ob. sql_eq (operatorbundle_name ob) (channel_entry_operatorbundle_name ce)))
          (package s)
          (\<lambda>((ce, ap), ob) p. sql_eq (package_name p) (channel_entry_package_name ce)))"

definition GetBundleThatProvides_query ::
  "store \<Rightarrow> string \<Rightarrow> string \<Rightarrow> string \<Rightarrow> (NullString \<times> NullInt64) list" where
  "GetBundleThatProvides_query s groupOrName version kind =
     sql_distinct
       (map (\<lambda>(((ce, ap), ob), p). (operatorbundle_bundle ob, Some (channel_entry_depth ce)))
         (sql_group_by_min
            (\<lambda>(((ce, ap), ob), p). (channel_entry_package_name ce, channel_entry_channel_name ce))
            (\<lambda>(((ce, ap), ob), p). channel_entry_depth ce)
            (default_providers_join s groupOrName version kind)))"

definition GetBundleThatProvides_body ::
  "string \<Rightarrow> string \<Rightarrow> string \<Rightarrow> (NullString \<times> NullInt64) query_result \<Rightarrow> error + string" where
  "GetBundleThatProvides_body groupOrName version kind q =
     (case q of
        Inl err \<Rightarrow> Inl err
      | Inr [] \<Rightarrow> Inl (NotFound (''no bundle found that provides '' @ groupOrName @
                                    '' '' @ version @ '' '' @ kind))
      | Inr (Inl err # _) \<Rightarrow> Inl err
      | Inr (Inr (bundle, min_depth) # _) \<Rightarrow>
          (if \<not> Valid bundle
           then Inl (NotFound (''no bundle found that provides '' @ groupOrName @
                                '' '' @ version @ '' '' @ kind))
           else Inr (String bundle)))"

definition GetBundleThatProvides :: "store \<Rightarrow> string \<Rightarrow> string \<Rightarrow> string \<Rightarrow> error + string" where
  "GetBundleThatProvides s groupOrName version kind =
     GetBundleThatProvides_body groupOrName version kind
       (QueryContext (GetBundleThatProvides_query s groupOrName version kind))"

section \<open>Catalogs and notions of the specification\<close>

text \<open>The empty catalog: no row in any table.\<close>

definition empty_catalog :: store where
  "empty_catalog = \<lparr>package = [], channel = [], operatorbundle = [], channel_entry = [], api_provider = []\<rparr>"

text \<open>A catalog whose package \<open>etcd\<close> has no channel row.\<close>

definition package_without_channel :: store where
  "package_without_channel =
     \<lparr>package = [\<lparr>package_name = Some ''etcd'', package_default_channel = Some ''alpha''\<rparr>],
      channel = [\<lparr>channel_name = Some ''stable'', channel_package_name = Some ''prometheus'',
                  channel_head_operatorbundle_name = Some ''prometheus.v0.22.2''\<rparr>],
      operatorbundle = [], channel_entry = [], api_provider = []\<rparr>"

text \<open>The entry that each loop appends for a scanned row.\<close>

definition entry_of_columns :: "string \<Rightarrow> entry_columns \<Rightarrow> ChannelEntry" where
  "entry_of_columns name r = (case r of (pkgNameSQL, channelNameSQL, bundleNameSQL) \<Rightarrow>
     \<lparr>PackageName = String pkgNameSQL, ChannelName = String channelNameSQL,
      BundleName = String bundleNameSQL, Replaces = name\<rparr>)"

definition entry_of_provider_columns :: "provider_columns \<Rightarrow> ChannelEntry" where
  "entry_of_provider_columns r = (case r of (pkgNameSQL, channelNameSQL, bundleNameSQL, replacesSQL) \<Rightarrow>
     \<lparr>PackageName = String pkgNameSQL, ChannelName = String channelNameSQL,
      BundleName = String bundleNameSQL, Replaces = String replacesSQL\<rparr>)"

definition entry_of_latest_columns :: "latest_columns \<Rightarrow> ChannelEntry" where
  "entry_of_latest_columns r = (case r of (pkgNameSQL, channelNameSQL, bundleNameSQL, replacesSQL, min_depth) \<Rightarrow>
     \<lparr>PackageName = String pkgNameSQL, ChannelName = String channelNameSQL,
      BundleName = String bundleNameSQL, Replaces = String replacesSQL\<rparr>)"

text \<open>The channel that \<open>GetPackage\<close> builds from a row.\<close>

definition channel_of_columns :: "package_channel_columns \<Rightarrow> PackageChannel" where
  "channel_of_columns r = (case r of (pkgName, defaultChannel, channelName, bundleName) \<Rightarrow>
     \<lparr>Name = String channelName, CurrentCSVName = String bundleName\<rparr>)"

text \<open>A catalog whose package \<open>etcd\<close> has three channels.\<close>

definition three_channels :: store where
  "three_channels =
     \<lparr>package = [\<lparr>package_name = Some ''etcd'', package_default_channel = Some ''alpha''\<rparr>],
      channel = [\<lparr>channel_name = Some ''alpha'', channel_package_name = Some ''etcd'',
                  channel_head_operatorbundle_name = Some ''etcd.v1.0.0''\<rparr>,
                 \<lparr>channel_name = Some ''beta'', channel_package_name = Some ''etcd'',
                  channel_head_operatorbundle_name = Some ''etcd.v0.9.2''\<rparr>,
                 \<lparr>channel_name = Some ''stable'', channel_package_name = Some ''etcd'',
                  channel_head_operatorbundle_name = Some ''etcd.v0.9.0''\<rparr>],
      operatorbundle = [], channel_entry = [], api_provider = []\<rparr>"

text \<open>The etcd catalog of section 8 with a NULL payload.\<close>

definition null_payload :: store where
  "null_payload =
     \<lparr>package = [\<lparr>package_name = Some ''etcd'', package_default_channel = Some ''alpha''\<rparr>],
      channel = [\<lparr>channel_name = Some ''alpha'', channel_package_name = Some ''etcd'',
                  channel_head_operatorbundle_name = Some ''etcd.v1.0.0''\<rparr>],
      operatorbundle = [\<lparr>operatorbundle_name = Some ''etcd.v1.0.0'', operatorbundle_bundle = None\<rparr>],
      channel_entry = [\<lparr>channel_entry_entry_id = 1, channel_entry_channel_name = Some ''alpha'',
                        channel_entry_package_name = Some ''etcd'',
                        channel_entry_operatorbundle_name = Some ''etcd.v1.0.0'',
                        channel_entry_replaces = None, channel_entry_depth = 0\<rparr>],
      api_provider = [\<lparr>api_provider_groupOrName = Some ''etcd.database.coreos.com'',
                       api_provider_version = Some ''v1'', api_provider_kind = Some ''EtcdCluster'',
                       api_provider_channel_entry_id = 1\<rparr>]\<rparr>"

text \<open>
  The chain of section 8: in channel \<open>Ch\<close> of package \<open>P\<close> the entry of
  \<open>head\<close> replaces that of \<open>A\<close>, which replaces that of \<open>B\<close>, which replaces
  that of \<open>C\<close>, at depths 0, 1, 2 and 3. \<open>B\<close> and \<open>C\<close> provide one API.
\<close>

definition chain :: store where
  "chain =
     \<lparr>package = [\<lparr>package_name = Some ''P'', package_default_channel = Some ''Ch''\<rparr>],
      channel = [\<lparr>channel_name = Some ''Ch'', channel_package_name = Some ''P'',
                  channel_head_operatorbundle_name = Some ''head''\<rparr>],
      operatorbundle =
        [\<lparr>operatorbundle_name = Some ''head'', operatorbundle_bundle = Some ''payload of head''\<rparr>,
         \<lparr>operatorbundle_name = Some ''A'', operatorbundle_bundle = Some ''payload of A''\<rparr>,
         \<lparr>operatorbundle_name = Some ''B'', operatorbundle_bundle = Some ''payload of B''\<rparr>,
         \<lparr>operatorbundle_name = Some ''C'', operatorbundle_bundle = Some ''payload of C''\<rparr>],
      channel_entry =
        [\<lparr>channel_entry_entry_id = 1, channel_entry_channel_name = Some ''Ch'',
          channel_entry_package_name = Some ''P'', channel_entry_operatorbundle_name = Some ''head'',
          channel_entry_replaces = Some 2, channel_entry_depth = 0\<rparr>,
         \<lparr>channel_entry_entry_id = 2, channel_entry_channel_name = Some ''Ch'',
          channel_entry_package_name = Some ''P'', channel_entry_operatorbundle_name = Some ''A'',
          channel_entry_replaces = Some 3, channel_entry_depth = 1\<rparr>,
         \<lparr>channel_entry_entry_id = 3, channel_entry_channel_name = Some ''Ch'',
          channel_entry_package_name = Some ''P'', channel_entry_operatorbundle_name = Some ''B'',
          channel_entry_replaces = Some 4, channel_entry_depth = 2\<rparr>,
         \<lparr>channel_entry_entry_id = 4, channel_entry_channel_name = Some ''Ch'',
          channel_entry_package_name = Some ''P'', channel_entry_operatorbundle_name = Some ''C'',
          channel_entry_replaces = None, channel_entry_depth = 3\<rparr>],
      api_provider =
        [\<lparr>api_provider_groupOrName = Some ''example.com'', api_provider_version = Some ''v1'',
          api_provider_kind = Some ''Widget'', api_provider_channel_entry_id = 4\<rparr>,
         \<lparr>api_provider_groupOrName = Some ''example.com'', api_provider_version = Some ''v1'',
          api_provider_kind = Some ''Widget'', api_provider_channel_entry_id = 3\<rparr>]\<rparr>"



text \<open>The replaces-edge of \<open>r\<close> points at an entry that carries the bundle
  \<open>name\<close> in the channel \<open>channelName\<close> of the package \<open>pkgName\<close>.\<close>

definition replaces_in_channel :: "store \<Rightarrow> string \<Rightarrow> string \<Rightarrow> string \<Rightarrow> channel_entry_row \<Rightarrow> bool" where
  "replaces_in_channel s name pkgName channelName r =
     (\<exists>e\<in>set (channel_entry s).
        channel_entry_operatorbundle_name e = Some name \<and>
        channel_entry_package_name e = Some pkgName \<and>
        channel_entry_channel_name e = Some channelName \<and>
        channel_entry_replaces r = Some (channel_entry_entry_id e))"

text \<open>\<open>ob\<close> is a row of the bundle that the entry \<open>e\<close> names.\<close>

definition bundle_row_of :: "channel_entry_row \<Rightarrow> operatorbundle_row \<Rightarrow> bool" where
  "bundle_row_of e ob = sql_eq (operatorbundle_name ob) (channel_entry_operatorbundle_name e)"

text \<open>The entry \<open>e\<close> provides the API: a row of \<open>api_provider\<close> associates
  it with (group, version, kind).\<close>

definition provides :: "store \<Rightarrow> string \<Rightarrow> string \<Rightarrow> string \<Rightarrow> channel_entry_row \<Rightarrow> bool" where
  "provides s groupOrName version kind e =
     (\<exists>ap\<in>set (api_provider s).
        api_provider_channel_entry_id ap = channel_entry_entry_id e \<and>
        api_provider_groupOrName ap = Some groupOrName \<and>
        api_provider_version ap = Some version \<and>
        api_provider_kind ap = Some kind)"

text \<open>The (package, channel) pair of an entry, as stored.\<close>

definition entry_key :: "channel_entry_row \<Rightarrow> NullString \<times> NullString" where
  "entry_key e = (channel_entry_package_name e, channel_entry_channel_name e)"

text \<open>\<open>n\<close> is what the replaces field of a returned entry reads for \<open>e\<close>: the
  bundle name of an entry that \<open>e\<close> replaces, or the empty string when \<open>e\<close>
  replaces no entry.\<close>

definition replaces_field :: "store \<Rightarrow> channel_entry_row \<Rightarrow> string \<Rightarrow> bool" where
  "replaces_field s e n =
     ((\<exists>r\<in>set (channel_entry s).
         channel_entry_replaces e = Some (channel_entry_entry_id r) \<and>
         n = String (channel_entry_operatorbundle_name r)) \<or>
      (\<not> (\<exists>r\<in>set (channel_entry s). channel_entry_replaces e = Some (channel_entry_entry_id r)) \<and>
       n = []))"

text \<open>The returned entry \<open>x\<close> is that of \<open>e\<close>, a providing entry of least depth
  among the providing entries of its (package, channel).\<close>

definition latest_of :: "store \<Rightarrow> string \<Rightarrow> string \<Rightarrow> string \<Rightarrow> channel_entry_row \<Rightarrow> ChannelEntry \<Rightarrow> bool" where
  "latest_of s groupOrName version kind e x =
     (e \<in> set (channel_entry s) \<and> provides s groupOrName version kind e \<and>
      (\<forall>e'\<in>set (channel_entry s).
          provides s groupOrName version kind e' \<and> entry_key e' = entry_key e \<longrightarrow>
          channel_entry_depth e \<le> channel_entry_depth e') \<and>
      PackageName x = String (channel_entry_package_name e) \<and>
      ChannelName x = String (channel_entry_channel_name e) \<and>
      BundleName x = String (channel_entry_operatorbundle_name e) \<and>
      replaces_field s e (Replaces x))"










section \<open>Properties of the SQL operators\<close>

lemma sql_eq_Some_right: "sql_eq a (Some y) = (a = Some y)"
  by (cases a) (auto simp: sql_eq_def)

lemma sql_eq_Some_left: "sql_eq (Some x) b = (b = Some x)"
  by (cases b) (auto simp: sql_eq_def)

lemma sql_eq_iff: "sql_eq a b = (\<exists>x. a = Some x \<and> b = Some x)"
  by (cases a; cases b) (auto simp: sql_eq_def)

lemma set_inner_join:
  "set (inner_join as bs on) = {(a, b). a \<in> set as \<and> b \<in> set bs \<and> on a b}"
  by (auto simp: inner_join_def)

lemma left_outer_join_if:
  "left_outer_join as bs on =
     concat (map (\<lambda>a. if filter (on a) bs = [] then [(a, None)]
                        else map (\<lambda>b. (a, Some b)) (filter (on a) bs)) as)"
proof -
  have "(case filter (on a) bs of [] \<Rightarrow> [(a, None)] | m # ms \<Rightarrow> map (\<lambda>b. (a, Some b)) (m # ms)) =
      (if filter (on a) bs = [] then [(a, None)] else map (\<lambda>b. (a, Some b)) (filter (on a) bs))" for a
    by (cases "filter (on a) bs") simp_all
  then show ?thesis by (simp add: left_outer_join_def)
qed

lemma set_left_outer_join:
  "set (left_outer_join as bs on) =
     {(a, r). a \<in> set as \<and>
        ((\<exists>b. r = Some b \<and> b \<in> set bs \<and> on a b) \<or> (r = None \<and> (\<forall>b\<in>set bs. \<not> on a b)))}"
  unfolding left_outer_join_if by (auto simp: filter_empty_conv)

lemma set_sql_distinct: "set (sql_distinct xs) = set xs"
  by (induction xs rule: sql_distinct.induct) auto

lemma sql_distinct_Nil_iff: "sql_distinct xs = [] \<longleftrightarrow> xs = []"
  by (cases xs) auto

lemma distinct_sql_distinct: "distinct (sql_distinct xs)"
  by (induction xs rule: sql_distinct.induct) (auto simp: set_sql_distinct)

lemma sql_distinct_id: "distinct xs \<Longrightarrow> sql_distinct xs = xs"
proof (induction xs)
  case Nil show ?case by simp
next
  case (Cons x xs)
  then have "filter (\<lambda>y. y \<noteq> x) xs = xs" by (auto simp: filter_id_conv)
  with Cons show ?case by simp
qed

section \<open>The empty catalog\<close>

text \<open>
  Claim C7. On the empty catalog \<open>ListPackages\<close> returns the empty list and no
  error, and every other operation fails with \<open>NotFound\<close>, whatever its arguments.
  The three operations that return entries give back no entry with the error.
\<close>

theorem empty_catalog_results:
  "ListPackages empty_catalog = Inr [] \<and>
   GetPackage empty_catalog name = Inl (NotFound (''package '' @ name @ '' not found'')) \<and>
   GetBundleForChannel empty_catalog pkgName channelName =
     Inl (NotFound (''no bundle found for '' @ pkgName @ '' '' @ channelName)) \<and>
   GetBundleForName empty_catalog name = Inl (NotFound (''no bundle found named '' @ name)) \<and>
   GetChannelEntriesThatReplace empty_catalog name =
     ([], Some (NotFound (''no channel entries found that replace '' @ name))) \<and>
   GetBundleThatReplaces empty_catalog name pkgName channelName =
     Inl (NotFound (''no bundle found that replaces '' @ name)) \<and>
   GetChannelEntriesThatProvide empty_catalog groupOrName version kind =
     ([], Some (NotFound (''no channel entries found that provide '' @ groupOrName @ '' '' @ version @ '' '' @ kind))) \<and>
   GetLatestChannelEntriesThatProvide empty_catalog groupOrName version kind =
     ([], Some (NotFound (''no channel entries found that provide '' @ groupOrName @ '' '' @ version @ '' '' @ kind))) \<and>
   GetBundleThatProvides empty_catalog groupOrName version kind =
     Inl (NotFound (''no bundle found that provides '' @ groupOrName @ '' '' @ version @ '' '' @ kind))"
  by (simp add: empty_catalog_def QueryContext_def inner_join_def left_outer_join_def limit_1_def
      ListPackages_def ListPackages_query_def ListPackages_body_def
      GetPackage_def GetPackage_query_def GetPackage_body_def
      GetBundleForChannel_def GetBundleForChannel_query_def GetBundleForChannel_body_def
      GetBundleForName_def GetBundleForName_query_def GetBundleForName_body_def
      GetChannelEntriesThatReplace_def GetChannelEntriesThatReplace_query_def GetChannelEntriesThatReplace_body_def
      GetBundleThatReplaces_def GetBundleThatReplaces_query_def GetBundleThatReplaces_body_def
      GetChannelEntriesThatProvide_def GetChannelEntriesThatProvide_query_def GetChannelEntriesThatProvide_body_def
      GetLatestChannelEntriesThatProvide_def GetLatestChannelEntriesThatProvide_query_def
      GetLatestChannelEntriesThatProvide_body_def providers_join_def
      GetBundleThatProvides_def GetBundleThatProvides_query_def GetBundleThatProvides_body_def
      default_providers_join_def)

section \<open>GetPackage\<close>

lemma GetPackage_query_Nil_iff:
  "GetPackage_query s name = [] \<longleftrightarrow>
     \<not> (\<exists>p\<in>set (package s). \<exists>c\<in>set (channel s).
          package_name p = Some name \<and> channel_package_name c = Some name)"
proof -
  have "GetPackage_query s name = [] \<longleftrightarrow>
      (\<forall>x\<in>set (inner_join (package s) (channel s) (\<lambda>p c. sql_eq (channel_package_name c) (package_name p))).
          \<not> (case x of (p, c) \<Rightarrow> sql_eq (package_name p) (Some name)))"
    by (simp add: GetPackage_query_def sql_distinct_Nil_iff filter_empty_conv)
  also have "\<dots> \<longleftrightarrow> \<not> (\<exists>p\<in>set (package s). \<exists>c\<in>set (channel s).
          package_name p = Some name \<and> channel_package_name c = Some name)"
    by (auto simp: set_inner_join sql_eq_iff)
  finally show ?thesis .
qed

text \<open>
  Claim C10. When a package row has the name but no channel row has it as its package
  name, the inner join of \<open>package\<close> with \<open>channel\<close> has no row for the name and
  \<open>GetPackage\<close> fails with \<open>NotFound\<close>, although the package is in the catalog.
\<close>

theorem GetPackage_without_channel_rows:
  assumes "\<exists>p\<in>set (package s). package_name p = Some name"
    and "\<forall>c\<in>set (channel s). channel_package_name c \<noteq> Some name"
  shows "GetPackage s name = Inl (NotFound (''package '' @ name @ '' not found''))"
proof -
  from assms(2) have "GetPackage_query s name = []"
    unfolding GetPackage_query_Nil_iff by blast
  then show ?thesis
    by (simp add: GetPackage_def GetPackage_body_def QueryContext_def)
qed

theorem GetPackage_without_channel_rows_witness:
  "(\<exists>p\<in>set (package package_without_channel). package_name p = Some ''etcd'') \<and>
   GetPackage package_without_channel ''etcd'' = Inl (NotFound ''package etcd not found'')"
proof -
  have 1: "\<exists>p\<in>set (package package_without_channel). package_name p = Some ''etcd''"
    by (simp add: package_without_channel_def)
  have 2: "\<forall>c\<in>set (channel package_without_channel). channel_package_name c \<noteq> Some ''etcd''"
    by (simp add: package_without_channel_def)
  from GetPackage_without_channel_rows [OF 1 2] 1 show ?thesis by simp
qed

section \<open>Reading the cursor\<close>

lemma Replace_loop_scanned:
  "GetChannelEntriesThatReplace_loop name (map Inr cols) entries =
     (entries @ map (entry_of_columns name) cols,
      if entries @ map (entry_of_columns name) cols = []
      then Some (NotFound (''no channel entries found that replace '' @ name)) else None)"
  by (induction cols arbitrary: entries) (auto simp: entry_of_columns_def)



lemma Provide_loop_scanned:
  "GetChannelEntriesThatProvide_loop g v k (map Inr cols) entries =
     (entries @ map entry_of_provider_columns cols,
      if entries @ map entry_of_provider_columns cols = []
      then Some (NotFound (''no channel entries found that provide '' @ g @ '' '' @ v @ '' '' @ k)) else None)"
  by (induction cols arbitrary: entries) (auto simp: entry_of_provider_columns_def)



lemma Latest_loop_scanned:
  "GetLatestChannelEntriesThatProvide_loop g v k (map Inr cols) entries =
     (entries @ map entry_of_latest_columns cols,
      if entries @ map entry_of_latest_columns cols = []
      then Some (NotFound (''no channel entries found that provide '' @ g @ '' '' @ v @ '' '' @ k)) else None)"
  by (induction cols arbitrary: entries) (auto simp: entry_of_latest_columns_def)





section \<open>The channels of a manifest\<close>

lemma GetPackage_body_scanned:
  "GetPackage_body name (QueryContext cols) =
     (case cols of
        [] \<Rightarrow> Inl (NotFound (''package '' @ name @ '' not found''))
      | (pkgName, defaultChannel, channelName, bundleName) # _ \<Rightarrow>
          Inr \<lparr>PackageManifest.PackageName = String pkgName,
               DefaultChannelName = String defaultChannel,
               Channels = map channel_of_columns (take 2 cols)\<rparr>)"
proof (cases cols)
  case Nil
  then show ?thesis by (simp add: GetPackage_body_def QueryContext_def)
next
  case (Cons r rest)
  obtain a b c d where r: "r = (a, b, c, d)" by (cases r)
  show ?thesis
  proof (cases rest)
    case Nil
    with Cons r show ?thesis
      by (simp add: GetPackage_body_def QueryContext_def channel_of_columns_def)
  next
    case (Cons r' rest')
    obtain a' b' c' d' where "r' = (a', b', c', d')" by (cases r')
    with Cons \<open>cols = r # rest\<close> r show ?thesis
      by (simp add: GetPackage_body_def QueryContext_def channel_of_columns_def numeral_2_eq_2)
  qed
qed

lemma GetPackage_query_rows:
  "r \<in> set (GetPackage_query s name) \<Longrightarrow>
   \<exists>p\<in>set (package s). \<exists>c\<in>set (channel s).
     package_name p = Some name \<and> channel_package_name c = Some name \<and>
     r = (package_name p, package_default_channel p, channel_name c, channel_head_operatorbundle_name c)"
  by (fastforce simp: GetPackage_query_def set_sql_distinct set_inner_join sql_eq_iff)

text \<open>
  Claim C4, as amended. \<open>GetPackage\<close> fails with \<open>NotFound\<close> when the join of
  \<open>package\<close> with \<open>channel\<close> has no row for the name: no package row has the name,
  or no channel row has it as its package name. Otherwise it returns a manifest for the
  name with at least one and at most two channels, those of the first two rows of the
  join, each a channel row of the package; the rows after the second are not read.
\<close>

theorem GetPackage_channels:
  "(\<not> (\<exists>p\<in>set (package s). \<exists>c\<in>set (channel s).
          package_name p = Some name \<and> channel_package_name c = Some name) \<longrightarrow>
      GetPackage s name = Inl (NotFound (''package '' @ name @ '' not found''))) \<and>
   ((\<exists>p\<in>set (package s). \<exists>c\<in>set (channel s).
          package_name p = Some name \<and> channel_package_name c = Some name) \<longrightarrow>
      (\<exists>m. GetPackage s name = Inr m \<and>
           PackageManifest.PackageName m = name \<and>
           1 \<le> length (Channels m) \<and> length (Channels m) \<le> 2 \<and>
           Channels m = map channel_of_columns (take 2 (GetPackage_query s name)) \<and>
           (\<forall>ch\<in>set (Channels m). \<exists>c\<in>set (channel s).
               channel_package_name c = Some name \<and> Name ch = String (channel_name c) \<and>
               CurrentCSVName ch = String (channel_head_operatorbundle_name c))))"
proof (intro conjI impI)
  assume "\<not> (\<exists>p\<in>set (package s). \<exists>c\<in>set (channel s).
          package_name p = Some name \<and> channel_package_name c = Some name)"
  then have "GetPackage_query s name = []" by (rule iffD2 [OF GetPackage_query_Nil_iff])
  then show "GetPackage s name = Inl (NotFound (''package '' @ name @ '' not found''))"
    by (simp add: GetPackage_def GetPackage_body_scanned)
next
  assume "\<exists>p\<in>set (package s). \<exists>c\<in>set (channel s).
          package_name p = Some name \<and> channel_package_name c = Some name"
  then have "GetPackage_query s name \<noteq> []" using GetPackage_query_Nil_iff [of s name] by blast
  then obtain r rest where rows: "GetPackage_query s name = r # rest" by (cases "GetPackage_query s name") auto
  obtain a b c d where r: "r = (a, b, c, d)" by (cases r)
  let ?m = "\<lparr>PackageManifest.PackageName = String a, DefaultChannelName = String b,
             Channels = map channel_of_columns (take 2 (GetPackage_query s name))\<rparr>"
  have res: "GetPackage s name = Inr ?m"
    using rows r by (simp add: GetPackage_def GetPackage_body_scanned)
  have "r \<in> set (GetPackage_query s name)" using rows by simp
  from GetPackage_query_rows [OF this] r have "a = Some name" by auto
  then have pn: "PackageManifest.PackageName ?m = name" by (simp add: String_def)
  have len: "1 \<le> length (Channels ?m) \<and> length (Channels ?m) \<le> 2" using rows by simp
  have from_rows: "\<exists>c\<in>set (channel s).
               channel_package_name c = Some name \<and> Name ch = String (channel_name c) \<and>
               CurrentCSVName ch = String (channel_head_operatorbundle_name c)"
    if "ch \<in> set (Channels ?m)" for ch
  proof -
    from that obtain x where "x \<in> set (take 2 (GetPackage_query s name))" and ch: "ch = channel_of_columns x"
      by auto
    then have "x \<in> set (GetPackage_query s name)" by (auto dest: in_set_takeD)
    from GetPackage_query_rows [OF this] ch show ?thesis
      by (auto simp: channel_of_columns_def)
  qed
  show "\<exists>m. GetPackage s name = Inr m \<and>
           PackageManifest.PackageName m = name \<and>
           1 \<le> length (Channels m) \<and> length (Channels m) \<le> 2 \<and>
           Channels m = map channel_of_columns (take 2 (GetPackage_query s name)) \<and>
           (\<forall>ch\<in>set (Channels m). \<exists>c\<in>set (channel s).
               channel_package_name c = Some name \<and> Name ch = String (channel_name c) \<and>
               CurrentCSVName ch = String (channel_head_operatorbundle_name c))"
    using res pn len from_rows by (intro exI [of _ ?m]) simp
qed

theorem GetPackage_channels_witness:
  "GetPackage package_without_channel ''etcd'' = Inl (NotFound ''package etcd not found'') \<and>
   (\<exists>m. GetPackage three_channels ''etcd'' = Inr m \<and>
      Channels m = [\<lparr>Name = ''alpha'', CurrentCSVName = ''etcd.v1.0.0''\<rparr>,
                    \<lparr>Name = ''beta'', CurrentCSVName = ''etcd.v0.9.2''\<rparr>])"
proof -
  have 1: "\<not> (\<exists>p\<in>set (package package_without_channel). \<exists>c\<in>set (channel package_without_channel).
          package_name p = Some ''etcd'' \<and> channel_package_name c = Some ''etcd'')"
    by (simp add: package_without_channel_def)
  have 2: "\<exists>p\<in>set (package three_channels). \<exists>c\<in>set (channel three_channels).
          package_name p = Some ''etcd'' \<and> channel_package_name c = Some ''etcd''"
    by (simp add: three_channels_def)
  have 3: "GetPackage_query three_channels ''etcd'' =
      [(Some ''etcd'', Some ''alpha'', Some ''alpha'', Some ''etcd.v1.0.0''),
       (Some ''etcd'', Some ''alpha'', Some ''beta'', Some ''etcd.v0.9.2''),
       (Some ''etcd'', Some ''alpha'', Some ''stable'', Some ''etcd.v0.9.0'')]"
    by (simp add: three_channels_def GetPackage_query_def inner_join_def sql_eq_def)
  from GetPackage_channels [of package_without_channel "''etcd''"] 1
  have a: "GetPackage package_without_channel ''etcd'' = Inl (NotFound (''package '' @ ''etcd'' @ '' not found''))"
    by blast
  from GetPackage_channels [of three_channels "''etcd''"] 2
  obtain m where "GetPackage three_channels ''etcd'' = Inr m"
    and "Channels m = map channel_of_columns (take 2 (GetPackage_query three_channels ''etcd''))"
    by blast
  then have "GetPackage three_channels ''etcd'' = Inr m \<and>
      Channels m = [\<lparr>Name = ''alpha'', CurrentCSVName = ''etcd.v1.0.0''\<rparr>,
                    \<lparr>Name = ''beta'', CurrentCSVName = ''etcd.v0.9.2''\<rparr>]"
    by (simp add: 3 channel_of_columns_def String_def numeral_2_eq_2)
  with a show ?thesis by auto
qed


text \<open>
  The claim as it was stated promises a manifest with one or two channels whenever a
  package row matches the name. It fails for a package without a channel row.
\<close>

theorem GetPackage_claim_counterexample:
  "\<not> ((\<exists>p\<in>set (package package_without_channel). package_name p = Some ''etcd'') \<longrightarrow>
        (\<exists>m. GetPackage package_without_channel ''etcd'' = Inr m \<and>
             1 \<le> length (Channels m) \<and> length (Channels m) \<le> 2))"
  by (simp add: package_without_channel_def GetPackage_def GetPackage_query_def GetPackage_body_def
      QueryContext_def inner_join_def sql_eq_def)

section \<open>Decoding NULL\<close>

lemma ListPackages_loop_scanned:
  "ListPackages_loop (map Inr names) packages = Inr (packages @ map String (filter Valid names))"
  by (induction names arbitrary: packages) auto

text \<open>
  Claim C5, as amended. Over the cursor of a query whose rows all scan: in
  \<open>GetPackage\<close>, \<open>GetBundleForChannel\<close>, \<open>GetBundleForName\<close>,
  \<open>GetBundleThatReplaces\<close> and the three operations that return entries, a NULL
  textual field of a row reads as the empty string and the operation fails, with
  \<open>NotFound\<close>, only when the query gave no row. \<open>ListPackages\<close> never fails
  there and leaves out a row whose name is NULL. \<open>GetBundleThatProvides\<close> fails
  with \<open>NotFound\<close> when the query gave no row and also when the bundle of the first
  row is NULL.
\<close>

theorem null_fields_decoding:
  "ListPackages_body (QueryContext names) = Inr (map String (filter Valid names)) \<and>
   GetPackage_body name (QueryContext cols4) =
     (case cols4 of
        [] \<Rightarrow> Inl (NotFound (''package '' @ name @ '' not found''))
      | (pkgName, defaultChannel, channelName, bundleName) # _ \<Rightarrow>
          Inr \<lparr>PackageManifest.PackageName = String pkgName,
               DefaultChannelName = String defaultChannel,
               Channels = map channel_of_columns (take 2 cols4)\<rparr>) \<and>
   GetBundleForChannel_body pkgName channelName (QueryContext bundles) =
     (case bundles of
        [] \<Rightarrow> Inl (NotFound (''no bundle found for '' @ pkgName @ '' '' @ channelName))
      | bundle # _ \<Rightarrow> Inr (String bundle)) \<and>
   GetBundleForName_body name (QueryContext bundles) =
     (case bundles of
        [] \<Rightarrow> Inl (NotFound (''no bundle found named '' @ name))
      | bundle # _ \<Rightarrow> Inr (String bundle)) \<and>
   GetBundleThatReplaces_body name (QueryContext bundles) =
     (case bundles of
        [] \<Rightarrow> Inl (NotFound (''no bundle found that replaces '' @ name))
      | bundle # _ \<Rightarrow> Inr (String bundle)) \<and>
   GetChannelEntriesThatReplace_body name (QueryContext cols3) =
     (map (entry_of_columns name) cols3,
      if cols3 = [] then Some (NotFound (''no channel entries found that replace '' @ name)) else None) \<and>
   GetChannelEntriesThatProvide_body groupOrName version kind (QueryContext provider_cols) =
     (map entry_of_provider_columns provider_cols,
      if provider_cols = []
      then Some (NotFound (''no channel entries found that provide '' @ groupOrName @ '' '' @ version @ '' '' @ kind))
      else None) \<and>
   GetLatestChannelEntriesThatProvide_body groupOrName version kind (QueryContext latest_cols) =
     (map entry_of_latest_columns latest_cols,
      if latest_cols = []
      then Some (NotFound (''no channel entries found that provide '' @ groupOrName @ '' '' @ version @ '' '' @ kind))
      else None) \<and>
   GetBundleThatProvides_body groupOrName version kind (QueryContext cols2) =
     (case cols2 of
        [] \<Rightarrow> Inl (NotFound (''no bundle found that provides '' @ groupOrName @ '' '' @ version @ '' '' @ kind))
      | (None, min_depth) # _ \<Rightarrow>
          Inl (NotFound (''no bundle found that provides '' @ groupOrName @ '' '' @ version @ '' '' @ kind))
      | (Some bundle, min_depth) # _ \<Rightarrow> Inr bundle) \<and>
   String None = ''''"
proof (intro conjI)
  show "ListPackages_body (QueryContext names) = Inr (map String (filter Valid names))"
    by (simp add: ListPackages_body_def QueryContext_def ListPackages_loop_scanned)
  show "GetPackage_body name (QueryContext cols4) =
     (case cols4 of
        [] \<Rightarrow> Inl (NotFound (''package '' @ name @ '' not found''))
      | (pkgName, defaultChannel, channelName, bundleName) # _ \<Rightarrow>
          Inr \<lparr>PackageManifest.PackageName = String pkgName,
               DefaultChannelName = String defaultChannel,
               Channels = map channel_of_columns (take 2 cols4)\<rparr>)"
    by (rule GetPackage_body_scanned)
  show "GetBundleForChannel_body pkgName channelName (QueryContext bundles) =
     (case bundles of
        [] \<Rightarrow> Inl (NotFound (''no bundle found for '' @ pkgName @ '' '' @ channelName))
      | bundle # _ \<Rightarrow> Inr (String bundle))"
    by (cases bundles) (simp_all add: GetBundleForChannel_body_def QueryContext_def)
  show "GetBundleForName_body name (QueryContext bundles) =
     (case bundles of
        [] \<Rightarrow> Inl (NotFound (''no bundle found named '' @ name))
      | bundle # _ \<Rightarrow> Inr (String bundle))"
    by (cases bundles) (simp_all add: GetBundleForName_body_def QueryContext_def)
  show "GetBundleThatReplaces_body name (QueryContext bundles) =
     (case bundles of
        [] \<Rightarrow> Inl (NotFound (''no bundle found that replaces '' @ name))
      | bundle # _ \<Rightarrow> Inr (String bundle))"
    by (cases bundles) (simp_all add: GetBundleThatReplaces_body_def QueryContext_def)
  show "GetChannelEntriesThatReplace_body name (QueryContext cols3) =
     (map (entry_of_columns name) cols3,
      if cols3 = [] then Some (NotFound (''no channel entries found that replace '' @ name)) else None)"
    by (simp add: GetChannelEntriesThatReplace_body_def QueryContext_def Replace_loop_scanned)
  show "GetChannelEntriesThatProvide_body groupOrName version kind (QueryContext provider_cols) =
     (map entry_of_provider_columns provider_cols,
      if provider_cols = []
      then Some (NotFound (''no channel entries found that provide '' @ groupOrName @ '' '' @ version @ '' '' @ kind))
      else None)"
    by (simp add: GetChannelEntriesThatProvide_body_def QueryContext_def Provide_loop_scanned)
  show "GetLatestChannelEntriesThatProvide_body groupOrName version kind (QueryContext latest_cols) =
     (map entry_of_latest_columns latest_cols,
      if latest_cols = []
      then Some (NotFound (''no channel entries found that provide '' @ groupOrName @ '' '' @ version @ '' '' @ kind))
      else None)"
    by (simp add: GetLatestChannelEntriesThatProvide_body_def QueryContext_def Latest_loop_scanned)
  show "GetBundleThatProvides_body groupOrName version kind (QueryContext cols2) =
     (case cols2 of
        [] \<Rightarrow> Inl (NotFound (''no bundle found that provides '' @ groupOrName @ '' '' @ version @ '' '' @ kind))
      | (None, min_depth) # _ \<Rightarrow>
          Inl (NotFound (''no bundle found that provides '' @ groupOrName @ '' '' @ version @ '' '' @ kind))
      | (Some bundle, min_depth) # _ \<Rightarrow> Inr bundle)"
    by (cases cols2)
      (auto simp: GetBundleThatProvides_body_def QueryContext_def Valid_def String_def split: option.splits)
  show "String None = ''''" by (simp add: String_def)
qed

theorem null_fields_decoding_witness:
  "ListPackages_body (QueryContext [Some ''etcd'', None]) = Inr [''etcd''] \<and>
   GetPackage_body ''etcd'' (QueryContext [(Some ''etcd'', None, Some ''alpha'', None)]) =
     Inr \<lparr>PackageManifest.PackageName = ''etcd'', DefaultChannelName = '''',
          Channels = [\<lparr>Name = ''alpha'', CurrentCSVName = ''''\<rparr>]\<rparr> \<and>
   GetBundleForChannel_body ''etcd'' ''alpha'' (QueryContext [None]) = Inr '''' \<and>
   GetBundleForName_body ''etcd.v1.0.0'' (QueryContext [None]) = Inr '''' \<and>
   GetBundleThatReplaces_body ''etcd.v0.9.0'' (QueryContext [None]) = Inr '''' \<and>
   GetChannelEntriesThatReplace_body ''etcd.v0.9.0'' (QueryContext [(None, Some ''alpha'', None)]) =
     ([\<lparr>PackageName = '''', ChannelName = ''alpha'', BundleName = '''', Replaces = ''etcd.v0.9.0''\<rparr>], None) \<and>
   GetChannelEntriesThatProvide_body ''g'' ''v1'' ''k'' (QueryContext [(Some ''etcd'', None, None, None)]) =
     ([\<lparr>PackageName = ''etcd'', ChannelName = '''', BundleName = '''', Replaces = ''''\<rparr>], None) \<and>
   GetLatestChannelEntriesThatProvide_body ''g'' ''v1'' ''k'' (QueryContext [(None, None, None, None, Some 0)]) =
     ([\<lparr>PackageName = '''', ChannelName = '''', BundleName = '''', Replaces = ''''\<rparr>], None) \<and>
   GetBundleThatProvides_body ''g'' ''v1'' ''k'' (QueryContext [(None, Some 0)]) =
     Inl (NotFound ''no bundle found that provides g v1 k'')"
  using null_fields_decoding [of "[Some ''etcd'', None]" "''etcd''"
      "[(Some ''etcd'', None, Some ''alpha'', None)]" "''etcd''" "''alpha''" "[None]"
      "[(None, Some ''alpha'', None)]" "''g''" "''v1''" "''k''"
      "[(Some ''etcd'', None, None, None)]" "[(None, None, None, None, Some 0)]" "[(None, Some 0)]"]
    null_fields_decoding [of "[]" "''etcd.v1.0.0''" "[]" "''etcd''" "''alpha''" "[None]"
      "[]" "''g''" "''v1''" "''k''" "[]" "[]" "[]"]
    null_fields_decoding [of "[]" "''etcd.v0.9.0''" "[]" "''etcd''" "''alpha''" "[None]"
      "[(None, Some ''alpha'', None)]" "''g''" "''v1''" "''k''" "[]" "[]" "[]"]
  by (simp add: String_def Valid_def channel_of_columns_def entry_of_columns_def
      entry_of_provider_columns_def entry_of_latest_columns_def)

text \<open>
  The claim as it was stated lets no NULL field of a matched row fail an operation. In
  the etcd catalog with a NULL payload the query of \<open>GetBundleThatProvides\<close> has a
  row and the operation fails with \<open>NotFound\<close>.
\<close>

theorem null_field_claim_counterexample:
  "GetBundleThatProvides_query null_payload ''etcd.database.coreos.com'' ''v1'' ''EtcdCluster'' =
     [(None, Some 0)] \<and>
   GetBundleThatProvides null_payload ''etcd.database.coreos.com'' ''v1'' ''EtcdCluster'' =
     Inl (NotFound ''no bundle found that provides etcd.database.coreos.com v1 EtcdCluster'')"
  by (simp add: null_payload_def GetBundleThatProvides_def GetBundleThatProvides_query_def
      GetBundleThatProvides_body_def default_providers_join_def QueryContext_def inner_join_def
      sql_eq_def Valid_def)

section \<open>GetChannelEntriesThatReplace\<close>






section \<open>GetBundleThatReplaces\<close>

lemma limit_1_sql_distinct: "limit_1 (sql_distinct xs) = (case xs of [] \<Rightarrow> [] | x # _ \<Rightarrow> [x])"
  by (cases xs) (simp_all add: limit_1_def)

lemma set_GetBundleThatReplaces_rows:
  "set (filter (\<lambda>((ce, replaces), ob).
                    sql_eq (channel_entry_operatorbundle_name ce) (Some name) \<and>
                    sql_eq (channel_entry_package_name ce) (Some pkgName) \<and>
                    sql_eq (channel_entry_channel_name ce) (Some channelName))
           (inner_join
              (left_outer_join (channel_entry s) (channel_entry s)
                 (\<lambda>ce replaces. sql_eq (channel_entry_replaces replaces) (Some (channel_entry_entry_id ce))))
              (operatorbundle s)
              (\<lambda>(ce, replaces) ob.
                 sql_eq (column channel_entry_operatorbundle_name replaces) (operatorbundle_name ob)))) =
   {((ce, Some r), ob) | ce r ob.
      ce \<in> set (channel_entry s) \<and> r \<in> set (channel_entry s) \<and> ob \<in> set (operatorbundle s) \<and>
      channel_entry_replaces r = Some (channel_entry_entry_id ce) \<and> bundle_row_of r ob \<and>
      channel_entry_operatorbundle_name ce = Some name \<and>
      channel_entry_package_name ce = Some pkgName \<and>
      channel_entry_channel_name ce = Some channelName}"
  (is "set (filter ?W (inner_join ?L ?OB ?on)) = ?R")
proof (intro set_eqI iffI)
  fix x assume "x \<in> set (filter ?W (inner_join ?L ?OB ?on))"
  then obtain ce rep ob where x: "x = ((ce, rep), ob)" and L: "(ce, rep) \<in> set ?L" and ob: "ob \<in> set ?OB"
    and on: "sql_eq (column channel_entry_operatorbundle_name rep) (operatorbundle_name ob)"
    and w: "channel_entry_operatorbundle_name ce = Some name"
      "channel_entry_package_name ce = Some pkgName" "channel_entry_channel_name ce = Some channelName"
    by (auto simp: set_inner_join sql_eq_Some_right)
  from on obtain r where rep: "rep = Some r" by (cases rep) (auto simp: column_def sql_eq_def)
  with on have "bundle_row_of r ob" by (auto simp: bundle_row_of_def column_def sql_eq_iff)
  moreover from L rep have "ce \<in> set (channel_entry s)" "r \<in> set (channel_entry s)"
    "channel_entry_replaces r = Some (channel_entry_entry_id ce)"
    by (auto simp: set_left_outer_join sql_eq_Some_right)
  ultimately show "x \<in> ?R" using x rep ob w by blast
next
  fix x assume "x \<in> ?R"
  then obtain ce r ob where x: "x = ((ce, Some r), ob)"
    and ce: "ce \<in> set (channel_entry s)" and r: "r \<in> set (channel_entry s)" and ob: "ob \<in> set (operatorbundle s)"
    and edge: "channel_entry_replaces r = Some (channel_entry_entry_id ce)" and b: "bundle_row_of r ob"
    and w: "channel_entry_operatorbundle_name ce = Some name"
      "channel_entry_package_name ce = Some pkgName" "channel_entry_channel_name ce = Some channelName"
    by blast
  from ce r edge have "(ce, Some r) \<in> set ?L" by (simp add: set_left_outer_join sql_eq_Some_right)
  moreover from b have "?on (ce, Some r) ob" by (auto simp: bundle_row_of_def column_def sql_eq_iff)
  ultimately have "((ce, Some r), ob) \<in> set (inner_join ?L ?OB ?on)" using ob
    by (simp add: set_inner_join)
  with w x show "x \<in> set (filter ?W (inner_join ?L ?OB ?on))" by (simp add: sql_eq_Some_right)
qed

lemma GetBundleThatReplaces_scanned:
  "GetBundleThatReplaces s name pkgName channelName =
     (case GetBundleThatReplaces_query s name pkgName channelName of
        [] \<Rightarrow> Inl (NotFound (''no bundle found that replaces '' @ name))
      | bundle # _ \<Rightarrow> Inr (String bundle))"
  by (cases "GetBundleThatReplaces_query s name pkgName channelName")
    (simp_all add: GetBundleThatReplaces_def GetBundleThatReplaces_body_def QueryContext_def)

text \<open>
  Claim C3. \<open>GetBundleThatReplaces\<close> fails with \<open>NotFound\<close> when no entry has a
  replaces-edge to an entry carrying the bundle name in the given channel of the given
  package (and also when no such entry names a bundle that has a row). When such an
  entry with a bundle row exists, the operation returns the payload of the bundle of
  such an entry. In the chain of section 8, asking for what replaces \<open>B\<close> gives the
  payload of \<open>A\<close>.
\<close>

theorem GetBundleThatReplaces_payload:
  "(\<not> (\<exists>r\<in>set (channel_entry s). replaces_in_channel s name pkgName channelName r) \<longrightarrow>
      GetBundleThatReplaces s name pkgName channelName =
        Inl (NotFound (''no bundle found that replaces '' @ name))) \<and>
   (\<not> (\<exists>r\<in>set (channel_entry s). \<exists>ob\<in>set (operatorbundle s).
          replaces_in_channel s name pkgName channelName r \<and> bundle_row_of r ob) \<longrightarrow>
      GetBundleThatReplaces s name pkgName channelName =
        Inl (NotFound (''no bundle found that replaces '' @ name))) \<and>
   ((\<exists>r\<in>set (channel_entry s). \<exists>ob\<in>set (operatorbundle s).
          replaces_in_channel s name pkgName channelName r \<and> bundle_row_of r ob) \<longrightarrow>
      (\<exists>r\<in>set (channel_entry s). \<exists>ob\<in>set (operatorbundle s).
          replaces_in_channel s name pkgName channelName r \<and> bundle_row_of r ob \<and>
          GetBundleThatReplaces s name pkgName channelName = Inr (String (operatorbundle_bundle ob)))) \<and>
   GetBundleThatReplaces chain ''B'' ''P'' ''Ch'' = Inr ''payload of A''"
proof -
  let ?W = "\<lambda>((ce, replaces), ob).
                    sql_eq (channel_entry_operatorbundle_name ce) (Some name) \<and>
                    sql_eq (channel_entry_package_name ce) (Some pkgName) \<and>
                    sql_eq (channel_entry_channel_name ce) (Some channelName)"
  let ?J = "inner_join
              (left_outer_join (channel_entry s) (channel_entry s)
                 (\<lambda>ce replaces. sql_eq (channel_entry_replaces replaces) (Some (channel_entry_entry_id ce))))
              (operatorbundle s)
              (\<lambda>(ce, replaces) ob.
                 sql_eq (column channel_entry_operatorbundle_name replaces) (operatorbundle_name ob))"
  let ?rows = "filter ?W ?J"
  let ?ex = "\<exists>r\<in>set (channel_entry s). \<exists>ob\<in>set (operatorbundle s).
          replaces_in_channel s name pkgName channelName r \<and> bundle_row_of r ob"
  have query: "GetBundleThatReplaces_query s name pkgName channelName =
      (case ?rows of [] \<Rightarrow> [] | x # _ \<Rightarrow> [operatorbundle_bundle (snd x)])"
    unfolding GetBundleThatReplaces_query_def limit_1_sql_distinct
    by (cases ?rows) (simp_all add: case_prod_unfold)
  have none: "GetBundleThatReplaces s name pkgName channelName =
        Inl (NotFound (''no bundle found that replaces '' @ name))" if "\<not> ?ex"
  proof -
    have "set ?rows = {}"
      unfolding set_GetBundleThatReplaces_rows using that
      by (auto simp: replaces_in_channel_def)
    then have "?rows = []" by (simp only: set_empty)
    then show ?thesis by (simp add: GetBundleThatReplaces_scanned query)
  qed
  have some: "\<exists>r\<in>set (channel_entry s). \<exists>ob\<in>set (operatorbundle s).
          replaces_in_channel s name pkgName channelName r \<and> bundle_row_of r ob \<and>
          GetBundleThatReplaces s name pkgName channelName = Inr (String (operatorbundle_bundle ob))"
    if ?ex
  proof -
    from that obtain r0 e0 ob0 where "r0 \<in> set (channel_entry s)" "e0 \<in> set (channel_entry s)"
      "ob0 \<in> set (operatorbundle s)" "bundle_row_of r0 ob0"
      "channel_entry_operatorbundle_name e0 = Some name" "channel_entry_package_name e0 = Some pkgName"
      "channel_entry_channel_name e0 = Some channelName"
      "channel_entry_replaces r0 = Some (channel_entry_entry_id e0)"
      unfolding replaces_in_channel_def by blast
    then have "((e0, Some r0), ob0) \<in> set ?rows"
      unfolding set_GetBundleThatReplaces_rows by blast
    then obtain x xs where rows: "?rows = x # xs" by (cases ?rows) auto
    then have "x \<in> set ?rows" by simp
    then obtain ce r ob where "x = ((ce, Some r), ob)"
      "ce \<in> set (channel_entry s)" "r \<in> set (channel_entry s)" "ob \<in> set (operatorbundle s)"
      "channel_entry_replaces r = Some (channel_entry_entry_id ce)" "bundle_row_of r ob"
      "channel_entry_operatorbundle_name ce = Some name"
      "channel_entry_package_name ce = Some pkgName" "channel_entry_channel_name ce = Some channelName"
      unfolding set_GetBundleThatReplaces_rows by blast
    moreover from this have "replaces_in_channel s name pkgName channelName r"
      by (auto simp: replaces_in_channel_def)
    moreover have "GetBundleThatReplaces s name pkgName channelName =
        Inr (String (operatorbundle_bundle (snd x)))"
      by (simp add: GetBundleThatReplaces_scanned query rows)
    ultimately show ?thesis by auto
  qed
  have chain: "GetBundleThatReplaces chain ''B'' ''P'' ''Ch'' = Inr ''payload of A''"
    by (simp add: GetBundleThatReplaces_scanned GetBundleThatReplaces_query_def chain_def
        inner_join_def left_outer_join_def sql_eq_def column_def limit_1_def String_def)
  from none some chain show ?thesis by blast
qed

theorem GetBundleThatReplaces_payload_witness:
  "GetBundleThatReplaces chain ''head'' ''P'' ''Ch'' = Inl (NotFound ''no bundle found that replaces head'') \<and>
   GetBundleThatReplaces chain ''B'' ''P'' ''beta'' = Inl (NotFound ''no bundle found that replaces B'') \<and>
   (\<exists>b. GetBundleThatReplaces chain ''A'' ''P'' ''Ch'' = Inr b)"
proof -
  have 1: "\<not> (\<exists>r\<in>set (channel_entry chain). replaces_in_channel chain ''head'' ''P'' ''Ch'' r)"
    by (simp add: chain_def replaces_in_channel_def)
  have 2: "\<not> (\<exists>r\<in>set (channel_entry chain). replaces_in_channel chain ''B'' ''P'' ''beta'' r)"
    by (simp add: chain_def replaces_in_channel_def)
  have 3: "\<exists>r\<in>set (channel_entry chain). \<exists>ob\<in>set (operatorbundle chain).
          replaces_in_channel chain ''A'' ''P'' ''Ch'' r \<and> bundle_row_of r ob"
    by (simp add: chain_def replaces_in_channel_def bundle_row_of_def sql_eq_def)
  from GetBundleThatReplaces_payload [of chain "''head''" "''P''" "''Ch''"] 1
  have a: "GetBundleThatReplaces chain ''head'' ''P'' ''Ch'' =
      Inl (NotFound (''no bundle found that replaces '' @ ''head''))" by blast
  from GetBundleThatReplaces_payload [of chain "''B''" "''P''" "''beta''"] 2
  have b: "GetBundleThatReplaces chain ''B'' ''P'' ''beta'' =
      Inl (NotFound (''no bundle found that replaces '' @ ''B''))" by blast
  from GetBundleThatReplaces_payload [of chain "''A''" "''P''" "''Ch''"] 3
  have c: "\<exists>b. GetBundleThatReplaces chain ''A'' ''P'' ''Ch'' = Inr b" by blast
  from a b c show ?thesis by simp
qed

section \<open>Grouping with the minimum depth\<close>

lemma min_row_le_best: "d (min_row d best rs) \<le> d best"
proof (induction rs arbitrary: best)
  case Nil show ?case by simp
next
  case (Cons r rs)
  show ?case
  proof (cases "d r < d best")
    case True
    with Cons [of r] show ?thesis by simp
  next
    case False
    with Cons [of best] show ?thesis by simp
  qed
qed

lemma min_row_in: "min_row d best rs \<in> set (best # rs)"
  by (induction rs arbitrary: best) (auto split: if_splits)

lemma min_row_le: "x \<in> set (best # rs) \<Longrightarrow> d (min_row d best rs) \<le> d x"
proof (induction rs arbitrary: best)
  case Nil then show ?case by simp
next
  case (Cons r rs)
  show ?case
  proof (cases "d r < d best")
    case True
    from Cons.prems have "x = best \<or> x \<in> set (r # rs)" by auto
    then show ?thesis
    proof
      assume "x = best"
      with True min_row_le_best [of d r rs] show ?thesis by simp
    next
      assume "x \<in> set (r # rs)"
      with Cons.IH [of r] True show ?thesis by simp
    qed
  next
    case False
    from Cons.prems have "x = r \<or> x \<in> set (best # rs)" by auto
    then show ?thesis
    proof
      assume "x = r"
      with False min_row_le_best [of d best rs] show ?thesis by simp
    next
      assume "x \<in> set (best # rs)"
      with Cons.IH [of best] False show ?thesis by simp
    qed
  qed
qed

lemma min_row_key:
  "\<forall>x\<in>set rs. key x = key best \<Longrightarrow> key (min_row d best rs) = key best"
  using min_row_in [of d best rs] by auto

lemma group_by_min_Nil_iff: "sql_group_by_min key d xs = [] \<longleftrightarrow> xs = []"
  by (cases xs) simp_all

lemma group_by_min_in:
  "r \<in> set (sql_group_by_min key d xs) \<Longrightarrow>
   r \<in> set xs \<and> (\<forall>x\<in>set xs. key x = key r \<longrightarrow> d r \<le> d x)"
proof (induction key d xs rule: sql_group_by_min.induct)
  case (1 key d)
  then show ?case by simp
next
  case (2 key d r0 rs)
  let ?same = "filter (\<lambda>x. key x = key r0) rs"
  let ?m = "min_row d r0 ?same"
  have m_in: "?m \<in> set (r0 # ?same)" by (rule min_row_in)
  have m_key: "key ?m = key r0" by (rule min_row_key) simp
  from "2.prems" have "r = ?m \<or> r \<in> set (sql_group_by_min key d (filter (\<lambda>x. key x \<noteq> key r0) rs))"
    by simp
  then show ?case
  proof
    assume r: "r = ?m"
    have "d ?m \<le> d x" if "x \<in> set (r0 # rs)" "key x = key ?m" for x
    proof -
      from that m_key have "x \<in> set (r0 # ?same)" by auto
      then show ?thesis by (rule min_row_le)
    qed
    with m_in r show ?thesis by auto
  next
    assume "r \<in> set (sql_group_by_min key d (filter (\<lambda>x. key x \<noteq> key r0) rs))"
    from "2.IH" [OF this]
    have r_in: "r \<in> set rs" and r_key: "key r \<noteq> key r0"
      and least: "\<forall>x\<in>set (filter (\<lambda>x. key x \<noteq> key r0) rs). key x = key r \<longrightarrow> d r \<le> d x"
      by auto
    have "d r \<le> d x" if "x \<in> set (r0 # rs)" "key x = key r" for x
    proof -
      from that r_key have "x \<in> set (filter (\<lambda>x. key x \<noteq> key r0) rs)" by auto
      with least that show ?thesis by blast
    qed
    with r_in show ?thesis by auto
  qed
qed

lemma group_by_min_keys: "key ` set (sql_group_by_min key d xs) = key ` set xs"
proof (induction key d xs rule: sql_group_by_min.induct)
  case (1 key d)
  show ?case by simp
next
  case (2 key d r0 rs)
  have "key (min_row d r0 (filter (\<lambda>x. key x = key r0) rs)) = key r0"
    by (rule min_row_key) simp
  moreover have "key ` set (filter (\<lambda>x. key x \<noteq> key r0) rs) \<union> {key r0} = key ` set rs \<union> {key r0}"
    by auto
  ultimately show ?case using "2.IH" by auto
qed

lemma group_by_min_distinct: "distinct (map key (sql_group_by_min key d xs))"
proof (induction key d xs rule: sql_group_by_min.induct)
  case (1 key d)
  show ?case by simp
next
  case (2 key d r0 rs)
  have m: "key (min_row d r0 (filter (\<lambda>x. key x = key r0) rs)) = key r0"
    by (rule min_row_key) simp
  have "key r0 \<notin> key ` set (sql_group_by_min key d (filter (\<lambda>x. key x \<noteq> key r0) rs))"
    unfolding group_by_min_keys by auto
  with m "2.IH" show ?case by simp
qed


lemma distinct_map_factor:
  assumes "distinct (map k xs)" and "\<And>x. k x = q (h x)"
  shows "distinct (map h xs)"
proof -
  from assms(1) have "distinct xs" and inj: "inj_on k (set xs)" by (auto simp: distinct_map)
  have "inj_on h (set xs)"
  proof (rule inj_onI)
    fix a b assume "a \<in> set xs" "b \<in> set xs" "h a = h b"
    then have "k a = k b" by (simp add: assms(2))
    with inj \<open>a \<in> set xs\<close> \<open>b \<in> set xs\<close> show "a = b" by (auto dest: inj_onD)
  qed
  with \<open>distinct xs\<close> show ?thesis by (simp add: distinct_map)
qed

section \<open>GetLatestChannelEntriesThatProvide\<close>

lemma in_providers_join:
  "((ce, ap), rep) \<in> set (providers_join s g v k) \<longleftrightarrow>
     ce \<in> set (channel_entry s) \<and> ap \<in> set (api_provider s) \<and>
     channel_entry_entry_id ce = api_provider_channel_entry_id ap \<and>
     api_provider_groupOrName ap = Some g \<and> api_provider_version ap = Some v \<and>
     api_provider_kind ap = Some k \<and>
     ((\<exists>r. rep = Some r \<and> r \<in> set (channel_entry s) \<and>
           channel_entry_replaces ce = Some (channel_entry_entry_id r)) \<or>
      (rep = None \<and> \<not> (\<exists>r\<in>set (channel_entry s). channel_entry_replaces ce = Some (channel_entry_entry_id r))))"
  unfolding providers_join_def set_filter set_left_outer_join set_inner_join
  by (simp add: sql_eq_Some_right) blast

lemma providers_join_entries:
  "(\<lambda>x. fst (fst x)) ` set (providers_join s g v k) = {e \<in> set (channel_entry s). provides s g v k e}"
proof (intro set_eqI iffI)
  fix e assume "e \<in> (\<lambda>x. fst (fst x)) ` set (providers_join s g v k)"
  then obtain ap rep where "((e, ap), rep) \<in> set (providers_join s g v k)" by force
  then show "e \<in> {e \<in> set (channel_entry s). provides s g v k e}"
    by (auto simp: in_providers_join provides_def)
next
  fix e assume "e \<in> {e \<in> set (channel_entry s). provides s g v k e}"
  then obtain ap where e: "e \<in> set (channel_entry s)" and ap: "ap \<in> set (api_provider s)"
    "channel_entry_entry_id e = api_provider_channel_entry_id ap"
    "api_provider_groupOrName ap = Some g" "api_provider_version ap = Some v"
    "api_provider_kind ap = Some k"
    unfolding provides_def by auto
  show "e \<in> (\<lambda>x. fst (fst x)) ` set (providers_join s g v k)"
  proof (cases "\<exists>r\<in>set (channel_entry s). channel_entry_replaces e = Some (channel_entry_entry_id r)")
    case True
    then obtain r where "r \<in> set (channel_entry s)" "channel_entry_replaces e = Some (channel_entry_entry_id r)"
      by blast
    with e ap have "((e, ap), Some r) \<in> set (providers_join s g v k)"
      unfolding in_providers_join by blast
    then show ?thesis by force
  next
    case False
    with e ap have "((e, ap), None) \<in> set (providers_join s g v k)"
      unfolding in_providers_join by blast
    then show ?thesis by force
  qed
qed

lemma GetLatestChannelEntriesThatProvide_scanned:
  "GetLatestChannelEntriesThatProvide s g v k =
     (map entry_of_latest_columns (GetLatestChannelEntriesThatProvide_query s g v k),
      if GetLatestChannelEntriesThatProvide_query s g v k = []
      then Some (NotFound (''no channel entries found that provide '' @ g @ '' '' @ v @ '' '' @ k))
      else None)"
  by (simp add: GetLatestChannelEntriesThatProvide_def GetLatestChannelEntriesThatProvide_body_def
      QueryContext_def Latest_loop_scanned)

lemma GetLatestChannelEntriesThatProvide_query_groups:
  "GetLatestChannelEntriesThatProvide_query s g v k =
     map (\<lambda>x. (channel_entry_package_name (fst (fst x)), channel_entry_channel_name (fst (fst x)),
                channel_entry_operatorbundle_name (fst (fst x)),
                column channel_entry_operatorbundle_name (snd x),
                Some (channel_entry_depth (fst (fst x)))))
       (sql_group_by_min (\<lambda>x. entry_key (fst (fst x))) (\<lambda>x. channel_entry_depth (fst (fst x)))
          (providers_join s g v k))"
  (is "_ = map ?proj ?G")
proof -
  have "distinct (map (\<lambda>x. entry_key (fst (fst x))) ?G)" by (rule group_by_min_distinct)
  then have "distinct (map ?proj ?G)"
    by (rule distinct_map_factor [where q = "\<lambda>c. (fst c, fst (snd c))"]) (simp add: entry_key_def)
  then have "sql_distinct (map ?proj ?G) = map ?proj ?G" by (rule sql_distinct_id)
  then show ?thesis
    by (simp add: GetLatestChannelEntriesThatProvide_query_def case_prod_unfold entry_key_def)
qed

text \<open>
  Claim C2. When no channel entry provides the API,
  \<open>GetLatestChannelEntriesThatProvide\<close> fails with \<open>NotFound\<close>. Otherwise it
  returns no error and one entry for each distinct (package, channel) pair of the
  providing entries: the returned entries are, one for one, those of a list of providing
  channel entries whose pairs are distinct and are all the pairs of the providing
  entries, each of least depth among the providing entries of its pair. In the chain of
  section 8, where \<open>B\<close> and \<open>C\<close> provide the API, the entry of \<open>B\<close> is returned.
\<close>

theorem GetLatestChannelEntriesThatProvide_latest:
  "(\<not> (\<exists>e\<in>set (channel_entry s). provides s groupOrName version kind e) \<longrightarrow>
      GetLatestChannelEntriesThatProvide s groupOrName version kind =
        ([], Some (NotFound (''no channel entries found that provide '' @ groupOrName @
                              '' '' @ version @ '' '' @ kind)))) \<and>
   ((\<exists>e\<in>set (channel_entry s). provides s groupOrName version kind e) \<longrightarrow>
      snd (GetLatestChannelEntriesThatProvide s groupOrName version kind) = None \<and>
      (\<exists>picks.
          distinct (map entry_key picks) \<and>
          entry_key ` set picks =
            entry_key ` {e \<in> set (channel_entry s). provides s groupOrName version kind e} \<and>
          list_all2 (latest_of s groupOrName version kind) picks
            (fst (GetLatestChannelEntriesThatProvide s groupOrName version kind)))) \<and>
   GetLatestChannelEntriesThatProvide chain ''example.com'' ''v1'' ''Widget'' =
     ([\<lparr>PackageName = ''P'', ChannelName = ''Ch'', BundleName = ''B'', Replaces = ''C''\<rparr>], None)"
proof -
  let ?J = "providers_join s groupOrName version kind"
  let ?K = "\<lambda>x. entry_key (fst (fst x))"
  let ?D = "\<lambda>x. channel_entry_depth (fst (fst x))"
  let ?G = "sql_group_by_min ?K ?D ?J"
  let ?proj = "\<lambda>x. (channel_entry_package_name (fst (fst x)), channel_entry_channel_name (fst (fst x)),
                channel_entry_operatorbundle_name (fst (fst x)),
                column channel_entry_operatorbundle_name (snd x),
                Some (channel_entry_depth (fst (fst x))))"
  let ?P = "{e \<in> set (channel_entry s). provides s groupOrName version kind e}"
  let ?msg = "NotFound (''no channel entries found that provide '' @ groupOrName @
                              '' '' @ version @ '' '' @ kind)"
  have result: "GetLatestChannelEntriesThatProvide s groupOrName version kind =
      (map (\<lambda>x. entry_of_latest_columns (?proj x)) ?G, if ?J = [] then Some ?msg else None)"
    by (simp add: GetLatestChannelEntriesThatProvide_scanned
        GetLatestChannelEntriesThatProvide_query_groups group_by_min_Nil_iff)
  have J_empty: "?J = [] \<longleftrightarrow> ?P = {}"
  proof -
    have "?J = [] \<longleftrightarrow> (\<lambda>x. fst (fst x)) ` set ?J = {}" by simp
    then show ?thesis unfolding providers_join_entries .
  qed
  have none: "GetLatestChannelEntriesThatProvide s groupOrName version kind = ([], Some ?msg)"
    if "\<not> (\<exists>e\<in>set (channel_entry s). provides s groupOrName version kind e)"
  proof -
    from that have "?P = {}" by blast
    then have "?J = []" by (simp only: J_empty)
    then show ?thesis unfolding result by simp
  qed
  have some: "snd (GetLatestChannelEntriesThatProvide s groupOrName version kind) = None \<and>
      (\<exists>picks.
          distinct (map entry_key picks) \<and> entry_key ` set picks = entry_key ` ?P \<and>
          list_all2 (latest_of s groupOrName version kind) picks
            (fst (GetLatestChannelEntriesThatProvide s groupOrName version kind)))"
    if "\<exists>e\<in>set (channel_entry s). provides s groupOrName version kind e"
  proof -
    from that have "?P \<noteq> {}" by blast
    then have "?J \<noteq> []" by (simp only: J_empty) simp
    then have err: "snd (GetLatestChannelEntriesThatProvide s groupOrName version kind) = None"
      unfolding result by simp
    let ?picks = "map (\<lambda>x. fst (fst x)) ?G"
    have d: "distinct (map entry_key ?picks)"
      using group_by_min_distinct [of ?K ?D ?J] by (simp add: comp_def)
    have "entry_key ` set ?picks = ?K ` set ?G" by (simp add: image_image)
    also have "\<dots> = ?K ` set ?J" by (rule group_by_min_keys)
    also have "\<dots> = entry_key ` ((\<lambda>x. fst (fst x)) ` set ?J)" by (simp add: image_image)
    finally have keys: "entry_key ` set ?picks = entry_key ` ?P"
      unfolding providers_join_entries .
    have each: "latest_of s groupOrName version kind (fst (fst x)) (entry_of_latest_columns (?proj x))"
      if "x \<in> set ?G" for x
    proof -
      obtain e ap rep where x: "x = ((e, ap), rep)" by (cases x) auto
      from group_by_min_in [OF that]
      have x_in: "x \<in> set ?J" and least: "\<forall>y\<in>set ?J. ?K y = ?K x \<longrightarrow> ?D x \<le> ?D y" by auto
      from x_in have "e \<in> (\<lambda>x. fst (fst x)) ` set ?J" unfolding x by force
      then have e: "e \<in> set (channel_entry s)" "provides s groupOrName version kind e"
        unfolding providers_join_entries by auto
      have min: "channel_entry_depth e \<le> channel_entry_depth e'"
        if "e' \<in> set (channel_entry s)" "provides s groupOrName version kind e'" "entry_key e' = entry_key e"
        for e'
      proof -
        from that have "e' \<in> (\<lambda>x. fst (fst x)) ` set ?J" unfolding providers_join_entries by simp
        then obtain y where "y \<in> set ?J" "fst (fst y) = e'" by auto
        with least that(3) x show ?thesis by auto
      qed
      have rf: "replaces_field s e (String (column channel_entry_operatorbundle_name rep))"
        using x_in unfolding x in_providers_join replaces_field_def
        by (auto simp: column_def String_def)
      from e min rf show ?thesis
        unfolding latest_of_def x by (simp add: entry_of_latest_columns_def)
    qed
    have "list_all2 (latest_of s groupOrName version kind) ?picks
        (map (\<lambda>x. entry_of_latest_columns (?proj x)) ?G)"
      unfolding list_all2_map1 list_all2_map2 using each by (simp add: list_all2_same)
    then have "list_all2 (latest_of s groupOrName version kind) ?picks
        (fst (GetLatestChannelEntriesThatProvide s groupOrName version kind))"
      unfolding result by simp
    with d keys err show ?thesis by blast
  qed
  have chain: "GetLatestChannelEntriesThatProvide chain ''example.com'' ''v1'' ''Widget'' =
     ([\<lparr>PackageName = ''P'', ChannelName = ''Ch'', BundleName = ''B'', Replaces = ''C''\<rparr>], None)"
    by (simp add: GetLatestChannelEntriesThatProvide_scanned GetLatestChannelEntriesThatProvide_query_def
        providers_join_def chain_def inner_join_def left_outer_join_def sql_eq_def column_def
        entry_of_latest_columns_def String_def)
  from none some chain show ?thesis by blast
qed

theorem GetLatestChannelEntriesThatProvide_latest_witness:
  "GetLatestChannelEntriesThatProvide chain ''example.com'' ''v2'' ''Widget'' =
     ([], Some (NotFound ''no channel entries found that provide example.com v2 Widget'')) \<and>
   snd (GetLatestChannelEntriesThatProvide chain ''example.com'' ''v1'' ''Widget'') = None \<and>
   length (fst (GetLatestChannelEntriesThatProvide chain ''example.com'' ''v1'' ''Widget'')) = 1"
proof -
  have 1: "\<not> (\<exists>e\<in>set (channel_entry chain). provides chain ''example.com'' ''v2'' ''Widget'' e)"
    by (simp add: chain_def provides_def)
  have 2: "\<exists>e\<in>set (channel_entry chain). provides chain ''example.com'' ''v1'' ''Widget'' e"
    by (simp add: chain_def provides_def)
  from GetLatestChannelEntriesThatProvide_latest [of chain "''example.com''" "''v2''" "''Widget''"] 1
  have a: "GetLatestChannelEntriesThatProvide chain ''example.com'' ''v2'' ''Widget'' =
     ([], Some (NotFound (''no channel entries found that provide '' @ ''example.com'' @
                              '' '' @ ''v2'' @ '' '' @ ''Widget'')))" by blast
  from GetLatestChannelEntriesThatProvide_latest [of chain "''example.com''" "''v1''" "''Widget''"] 2
  have b: "snd (GetLatestChannelEntriesThatProvide chain ''example.com'' ''v1'' ''Widget'') = None"
    and c: "GetLatestChannelEntriesThatProvide chain ''example.com'' ''v1'' ''Widget'' =
     ([\<lparr>PackageName = ''P'', ChannelName = ''Ch'', BundleName = ''B'', Replaces = ''C''\<rparr>], None)"
    by blast+
  from a b c show ?thesis by simp
qed

section \<open>GetBundleThatProvides\<close>














end
